theory Spec2Isabelle
  imports Complex_Main "HOL-Library.AList"
begin

section \<open>Values exchanged with the caller\<close>

text \<open>
  The multi-model risk-scoring pipeline of \<^verbatim>\<open>src/ai_engine\<close> is embedded function by
  function. Python floats are modelled as reals: there is no NaN and no infinity, and
  arithmetic is exact, so a value computed here can differ from the float the code computes
  by the rounding of the float operations (Python's \<^verbatim>\<open>round(x, 3)\<close> is modelled
  exactly on the real it is given). An exception that float arithmetic raises where real
  arithmetic is defined (\<^verbatim>\<open>OverflowError\<close>) is an explicit argument of \<open>analyze\<close>
  below. A value of the raw input dictionary is a number, a string, or something else.
\<close>

datatype pyval = Num real | Str string | Other

datatype breaker = ON | OFF

text \<open>
  What the code reads from a \<^verbatim>\<open>datetime\<close>: \<^verbatim>\<open>.hour\<close>, \<^verbatim>\<open>.weekday()\<close> and
  \<^verbatim>\<open>.timestamp()\<close>. The difference of two datetimes of the same kind is the difference
  of their unix times.
\<close>

record datetime =
  dt_hour :: nat
  dt_weekday :: nat
  dt_unix :: real

text \<open>
  A timestamp field is identified with the outcome of
  \<^verbatim>\<open>datetime.fromisoformat(ts.replace('Z', '+00:00'))\<close>: a datetime without offset, a
  datetime with offset, or a value on which the call raises ValueError or AttributeError.
\<close>

datatype tstamp = Naive datetime | Aware datetime | Unparseable

text \<open>
  The raw input dictionary; \<open>None\<close> is an absent key. Beside the five documented keys the
  preprocessor copies every other key of the dictionary into its result. A key named like
  a normalized value, a temporal feature or a delta is overwritten there on every call and
  a key of any other name is never read, with one exception: \<^verbatim>\<open>breaker_changed\<close>, which
  \<^verbatim>\<open>_compute_deltas\<close> sets only when a previous sample is stored. Its value is
  identified with its truth value, the only thing its readers test.
\<close>

record raw_fields =
  rf_voltage :: "pyval option"
  rf_frequency :: "pyval option"
  rf_power_flow :: "pyval option"
  rf_breaker_status :: "pyval option"
  rf_timestamp :: "tstamp option"
  rf_breaker_changed :: "bool option"

datatype raw_input = NotADict | RawDict raw_fields

datatype error =
  PreprocessingError string | TypeError string | ValueError string | OverflowError string

fun error_message :: "error \<Rightarrow> string" where
  "error_message (PreprocessingError m) = m"
| "error_message (TypeError m) = m"
| "error_message (ValueError m) = m"
| "error_message (OverflowError m) = m"

fun error_type :: "error \<Rightarrow> string" where
  "error_type (PreprocessingError m) = ''PreprocessingError''"
| "error_type (TypeError m) = ''TypeError''"
| "error_type (ValueError m) = ''ValueError''"
| "error_type (OverflowError m) = ''OverflowError''"

text \<open>
  A formatted reason string is kept as its template and the interpolated numbers: equal
  reasons format to equal strings.
\<close>

datatype reason = Reason string "real list"

fun add_suffix :: "reason \<Rightarrow> string \<Rightarrow> nat \<Rightarrow> reason" where
  "add_suffix (Reason t args) suffix n = Reason (t @ suffix) (args @ [real n])"

record model_output =
  score :: real
  confidence :: real
  reason :: reason

subsection \<open>Python helpers\<close>

text \<open>\<^verbatim>\<open>round\<close> on a float: to the nearest integer, ties to the even one.\<close>

definition py_round :: "real \<Rightarrow> int" where
  "py_round y =
     (let f = \<lfloor>y\<rfloor>; d = y - of_int f
      in if d < 1 / 2 then f else if 1 / 2 < d then f + 1 else if even f then f else f + 1)"

definition py_round3 :: "real \<Rightarrow> real" where
  "py_round3 x = of_int (py_round (x * 1000)) / 1000"

text \<open>\<^verbatim>\<open>xs[-n:]\<close> for a positive \<open>n\<close>.\<close>

definition last_n :: "nat \<Rightarrow> 'a list \<Rightarrow> 'a list" where
  "last_n n xs = drop (length xs - n) xs"

text \<open>\<^verbatim>\<open>xs.append(x)\<close> followed by \<^verbatim>\<open>if len(xs) > cap: xs.pop(0)\<close>.\<close>

definition append_bounded :: "nat \<Rightarrow> 'a list \<Rightarrow> 'a \<Rightarrow> 'a list" where
  "append_bounded cap xs x = (let ys = xs @ [x] in if length ys > cap then tl ys else ys)"

text \<open>\<^verbatim>\<open>max\<close> of a list of floats; every call site has checked that the list is not empty.\<close>

fun list_max :: "real list \<Rightarrow> real" where
  "list_max [] = 0"
| "list_max [x] = x"
| "list_max (x # y # ys) = max x (list_max (y # ys))"

text \<open>
  \<^verbatim>\<open>max(items, key=...)\<close>: the running best is replaced only by a strictly greater key, so
  the first maximal item wins.
\<close>

fun py_max_by :: "('a \<Rightarrow> real) \<Rightarrow> 'a \<Rightarrow> 'a list \<Rightarrow> 'a" where
  "py_max_by key best [] = best"
| "py_max_by key best (x # xs) = py_max_by key (if key best < key x then x else best) xs"

section \<open>Configuration (ai_config.py)\<close>

definition FUSION_WEIGHTS :: "(string \<times> real) list" where
  "FUSION_WEIGHTS =
     [(''anomaly'', 0.15), (''fdia'', 0.35), (''physics'', 0.25), (''behavior'', 0.10),
      (''memory'', 0.15)]"

definition safe_threshold :: real where "safe_threshold = 0.30"
definition warning_threshold :: real where "warning_threshold = 0.60"

definition rolling_window :: nat where "rolling_window = 20"
definition z_score_threshold :: real where "z_score_threshold = 2.5"
definition deviation_threshold :: real where "deviation_threshold = 0.15"

definition correlation_threshold :: real where "correlation_threshold = 0.3"
definition temporal_window :: nat where "temporal_window = 5"

definition voltage_min :: real where "voltage_min = 0.95"
definition voltage_max :: real where "voltage_max = 1.05"
definition frequency_min :: real where "frequency_min = 49.5"
definition frequency_max :: real where "frequency_max = 50.5"
definition breaker_off_power_tolerance :: real where "breaker_off_power_tolerance = 0.01"

definition max_switches_per_hour :: nat where "max_switches_per_hour = 10"
definition command_interval_min :: real where "command_interval_min = 5"
definition pattern_memory_size :: nat where "pattern_memory_size = 50"
definition replay_time_tolerance :: real where "replay_time_tolerance = 0.1"

definition history_size :: nat where "history_size = 100"
definition similarity_threshold :: real where "similarity_threshold = 0.85"

datatype decision = SAFE | WARNING | CRITICAL | ERROR

definition get_decision :: "real \<Rightarrow> decision" where
  "get_decision risk_score =
     (if risk_score < safe_threshold then SAFE
      else if risk_score < warning_threshold then WARNING
      else CRITICAL)"

section \<open>Preprocessor (preprocessing.py)\<close>

text \<open>
  The complete data: the copy of the raw dictionary with the defaults filled in.
  \<open>raw_breaker_changed\<close> is the raw key \<^verbatim>\<open>breaker_changed\<close>, copied with the others.
\<close>

record telemetry =
  voltage :: real
  frequency :: real
  power_flow :: real
  breaker_status :: breaker
  timestamp :: tstamp
  raw_breaker_changed :: "bool option"

text \<open>
  The preprocessed sample: the complete data, the normalized values, the temporal features
  and the delta features, merged in this order. \<open>breaker_changed\<close> is \<open>None\<close> when the key
  is absent: it is the flag of the delta features when they carry one, and otherwise the
  raw key of the complete data.
\<close>

record preprocessed = telemetry +
  voltage_norm :: real
  frequency_norm :: real
  power_flow_norm :: real
  hour :: nat
  day_of_week :: nat
  is_weekend :: bool
  is_night :: bool
  timestamp_unix :: real
  delta_voltage :: real
  delta_frequency :: real
  delta_power_flow :: real
  delta_time :: real
  breaker_changed :: "bool option"

record history_entry =
  h_voltage :: real
  h_frequency :: real
  h_power_flow :: real
  h_timestamp :: tstamp

record preprocessor =
  last_telemetry :: "telemetry option"
  telemetry_history :: "history_entry list"

definition is_numeric :: "pyval \<Rightarrow> bool" where
  "is_numeric v = (case v of Num x \<Rightarrow> True | _ \<Rightarrow> False)"

definition present_not :: "(pyval \<Rightarrow> bool) \<Rightarrow> pyval option \<Rightarrow> bool" where
  "present_not ok field = (case field of None \<Rightarrow> False | Some v \<Rightarrow> \<not> ok v)"

definition is_on_off :: "pyval \<Rightarrow> bool" where
  "is_on_off v = (v = Str ''ON'' \<or> v = Str ''OFF'')"

definition msg_no_telemetry :: string where
  "msg_no_telemetry =
     ''At least one telemetry field required: ['' @ [CHR 0x27] @ ''voltage'' @ [CHR 0x27]
       @ '', '' @ [CHR 0x27] @ ''frequency'' @ [CHR 0x27]
       @ '', '' @ [CHR 0x27] @ ''power_flow'' @ [CHR 0x27] @ '']''"

definition msg_breaker :: string where
  "msg_breaker =
     ''Breaker status must be '' @ [CHR 0x27] @ ''ON'' @ [CHR 0x27] @ '' or ''
       @ [CHR 0x27] @ ''OFF'' @ [CHR 0x27]"

definition validate_input :: "raw_input \<Rightarrow> error + raw_fields" where
  "validate_input input_data =
     (case input_data of
        NotADict \<Rightarrow> Inl (PreprocessingError ''Input must be a dictionary'')
      | RawDict d \<Rightarrow>
          if \<not> (rf_voltage d \<noteq> None \<or> rf_frequency d \<noteq> None \<or> rf_power_flow d \<noteq> None)
          then Inl (PreprocessingError msg_no_telemetry)
          else if present_not is_numeric (rf_voltage d)
          then Inl (PreprocessingError ''Voltage must be numeric'')
          else if present_not is_numeric (rf_frequency d)
          then Inl (PreprocessingError ''Frequency must be numeric'')
          else if present_not is_numeric (rf_power_flow d)
          then Inl (PreprocessingError ''Power flow must be numeric'')
          else if present_not is_on_off (rf_breaker_status d)
          then Inl (PreprocessingError msg_breaker)
          else Inr d)"

text \<open>
  The last equation of each helper is excluded by \<open>validate_input\<close>, which runs first.
\<close>

fun num_or_default :: "real \<Rightarrow> pyval option \<Rightarrow> real" where
  "num_or_default dflt None = dflt"
| "num_or_default dflt (Some (Num x)) = x"
| "num_or_default dflt (Some v) = dflt"

definition breaker_or_default :: "pyval option \<Rightarrow> breaker" where
  "breaker_or_default field =
     (case field of None \<Rightarrow> OFF | Some v \<Rightarrow> if v = Str ''ON'' then ON else OFF)"

text \<open>
  \<open>now\<close> is the reading of \<^verbatim>\<open>datetime.now()\<close>, a datetime without offset; a call of
  \<open>preprocess\<close> reads the clock at most once (for a missing timestamp here, for an
  unparseable one in \<open>extract_temporal_features\<close>).
\<close>

definition handle_missing_fields :: "datetime \<Rightarrow> raw_fields \<Rightarrow> telemetry" where
  "handle_missing_fields now d =
     \<lparr> voltage = num_or_default 1.0 (rf_voltage d),
       frequency = num_or_default 50.0 (rf_frequency d),
       power_flow = num_or_default 0.0 (rf_power_flow d),
       breaker_status = breaker_or_default (rf_breaker_status d),
       timestamp = (case rf_timestamp d of None \<Rightarrow> Naive now | Some t \<Rightarrow> t),
       raw_breaker_changed = rf_breaker_changed d \<rparr>"

definition normalize_value :: "real \<Rightarrow> real \<Rightarrow> real \<Rightarrow> real" where
  "normalize_value v min_val max_val = (max min_val (min max_val v) - min_val) / (max_val - min_val)"

definition normalize_values :: "telemetry \<Rightarrow> real \<times> real \<times> real" where
  "normalize_values d =
     (normalize_value (voltage d) 0.8 1.2,
      normalize_value (frequency d) 49.0 51.0,
      normalize_value (power_flow d) 0 200)"

definition extract_temporal_features :: "datetime \<Rightarrow> telemetry \<Rightarrow> nat \<times> nat \<times> bool \<times> bool \<times> real" where
  "extract_temporal_features now d =
     (let ts = (case timestamp d of Naive t \<Rightarrow> t | Aware t \<Rightarrow> t | Unparseable \<Rightarrow> now)
      in (dt_hour ts, dt_weekday ts, dt_weekday ts \<ge> 5, dt_hour ts < 6 \<or> dt_hour ts \<ge> 22,
          dt_unix ts))"

text \<open>
  \<^verbatim>\<open>(current_time - last_time).total_seconds()\<close> inside
  \<^verbatim>\<open>try ... except (ValueError, AttributeError)\<close>: a parse failure gives 0.0; subtracting a
  datetime with offset from one without (or the reverse) raises TypeError, which the
  handler does not catch.
\<close>

definition msg_mixed_offsets :: string where
  "msg_mixed_offsets =
     ''can'' @ [CHR 0x27] @ ''t subtract offset-naive and offset-aware datetimes''"

definition time_delta :: "tstamp \<Rightarrow> tstamp \<Rightarrow> error + real" where
  "time_delta cur lst =
     (case cur of
        Unparseable \<Rightarrow> Inr 0
      | Naive c \<Rightarrow>
          (case lst of
             Unparseable \<Rightarrow> Inr 0
           | Naive l \<Rightarrow> Inr (dt_unix c - dt_unix l)
           | Aware l \<Rightarrow> Inl (TypeError msg_mixed_offsets))
      | Aware c \<Rightarrow>
          (case lst of
             Unparseable \<Rightarrow> Inr 0
           | Naive l \<Rightarrow> Inl (TypeError msg_mixed_offsets)
           | Aware l \<Rightarrow> Inr (dt_unix c - dt_unix l)))"

text \<open>
  Returns the deltas (voltage, frequency, power flow, time, breaker flag) and the
  preprocessor with \<open>last_telemetry\<close> set to the current data.
\<close>

definition compute_deltas ::
  "preprocessor \<Rightarrow> telemetry \<Rightarrow> error + ((real \<times> real \<times> real \<times> real \<times> bool option) \<times> preprocessor)" where
  "compute_deltas pre d =
     (case last_telemetry pre of
        None \<Rightarrow> Inr ((0, 0, 0, 0, None), pre\<lparr>last_telemetry := Some d\<rparr>)
      | Some lst \<Rightarrow>
          (case time_delta (timestamp d) (timestamp lst) of
             Inl e \<Rightarrow> Inl e
           | Inr dt \<Rightarrow>
               Inr ((voltage d - voltage lst, frequency d - frequency lst,
                     power_flow d - power_flow lst, dt,
                     Some (breaker_status d \<noteq> breaker_status lst)),
                    pre\<lparr>last_telemetry := Some d\<rparr>)))"

definition update_history :: "preprocessor \<Rightarrow> telemetry \<Rightarrow> preprocessor" where
  "update_history pre d =
     pre\<lparr>telemetry_history :=
           append_bounded history_size (telemetry_history pre)
             \<lparr> h_voltage = voltage d, h_frequency = frequency d,
               h_power_flow = power_flow d, h_timestamp = timestamp d \<rparr>\<rparr>"

definition preprocess ::
  "datetime \<Rightarrow> preprocessor \<Rightarrow> raw_input \<Rightarrow> error + (preprocessed \<times> preprocessor)" where
  "preprocess now pre input_data =
     (case validate_input input_data of
        Inl e \<Rightarrow> Inl e
      | Inr validated_data \<Rightarrow>
          (let complete_data = handle_missing_fields now validated_data;
               (vn, fn, pn) = normalize_values complete_data;
               (h, dow, wkend, night, unix) = extract_temporal_features now complete_data
           in case compute_deltas pre complete_data of
                Inl e \<Rightarrow> Inl e
              | Inr ((dv, df, dp, dt, bc), pre1) \<Rightarrow>
                  Inr (\<lparr> voltage = voltage complete_data,
                         frequency = frequency complete_data,
                         power_flow = power_flow complete_data,
                         breaker_status = breaker_status complete_data,
                         timestamp = timestamp complete_data,
                         raw_breaker_changed = raw_breaker_changed complete_data,
                         voltage_norm = vn, frequency_norm = fn, power_flow_norm = pn,
                         hour = h, day_of_week = dow, is_weekend = wkend, is_night = night,
                         timestamp_unix = unix,
                         delta_voltage = dv, delta_frequency = df, delta_power_flow = dp,
                         delta_time = dt,
                         breaker_changed =
                           (case bc of
                              None \<Rightarrow> raw_breaker_changed complete_data
                            | Some changed \<Rightarrow> Some changed) \<rparr>,
                       update_history pre1 complete_data)))"

definition get_rolling_statistics ::
  "preprocessor \<Rightarrow> (history_entry \<Rightarrow> real) \<Rightarrow> nat \<Rightarrow> real \<times> real" where
  "get_rolling_statistics pre field window =
     (if length (telemetry_history pre) < 2 then (0, 0)
      else
        (let samples = map field (last_n window (telemetry_history pre));
             mean = sum_list samples / real (length samples);
             variance = sum_list (map (\<lambda>x. (x - mean)\<^sup>2) samples) / real (length samples)
         in (mean, sqrt variance)))"

definition preprocessor_reset :: "preprocessor \<Rightarrow> preprocessor" where
  "preprocessor_reset pre = pre\<lparr>last_telemetry := None, telemetry_history := []\<rparr>"

section \<open>Scoring models (models/*.py)\<close>

text \<open>
  Every check returns a (score, reason) pair; \<open>no_reason\<close> is the empty string. The
  \<^verbatim>\<open>details\<close> dictionary of a model output is read by nothing in the pipeline and is left
  out. A model that keeps history takes its state and returns the new one.
\<close>

abbreviation no_reason :: reason where
  "no_reason \<equiv> Reason [] []"

text \<open>The checks that fired (score above zero), in the order they ran.\<close>

definition fired :: "(real \<times> reason) list \<Rightarrow> (real \<times> reason) list" where
  "fired checks = filter (\<lambda>c. 0 < fst c) checks"

subsection \<open>MODEL-1: statistical anomaly detection\<close>

definition compute_z_score :: "real \<Rightarrow> real \<Rightarrow> real \<Rightarrow> real" where
  "compute_z_score v mean std_dev = (if std_dev = 0 then 0 else \<bar>v - mean\<bar> / std_dev)"

definition compute_deviation_percentage :: "real \<Rightarrow> real \<Rightarrow> real" where
  "compute_deviation_percentage v mean = (if mean = 0 then 0 else \<bar>v - mean\<bar> / \<bar>mean\<bar>)"

text \<open>
  \<open>field\<close> is the capitalized field name that starts the reason string; the source also
  passes the value, the mean and the standard deviation, which it does not read.
\<close>

definition evaluate_anomaly :: "string \<Rightarrow> real \<Rightarrow> real \<Rightarrow> bool \<times> real \<times> reason" where
  "evaluate_anomaly field z_score deviation_pct =
     (if z_score > z_score_threshold
      then (True, min 1 (z_score / (z_score_threshold * 2)),
            Reason (field @ '' deviation {:.1f} sigma from rolling mean'') [z_score])
      else if deviation_pct > deviation_threshold
      then (True, min 1 (deviation_pct / (deviation_threshold * 2)),
            Reason (field @ '' deviated {:.1f}% from expected'') [deviation_pct * 100])
      else (False, 0, no_reason))"

definition anomaly_field :: "string \<Rightarrow> real \<Rightarrow> real \<times> real \<Rightarrow> bool \<times> real \<times> reason" where
  "anomaly_field field v stats =
     evaluate_anomaly field (compute_z_score v (fst stats) (snd stats))
       (compute_deviation_percentage v (fst stats))"

definition anomaly_analyze ::
  "preprocessed \<Rightarrow> (real \<times> real) \<times> (real \<times> real) \<times> (real \<times> real) \<Rightarrow> model_output" where
  "anomaly_analyze d rolling_stats =
     (let (sv, sf, sp) = rolling_stats;
          anomalies = filter fst
            [anomaly_field ''Voltage'' (voltage d) sv,
             anomaly_field ''Frequency'' (frequency d) sf,
             anomaly_field ''Power_flow'' (power_flow d) sp];
          anomaly_scores = map (\<lambda>a. fst (snd a)) anomalies;
          anomaly_details = map (\<lambda>a. snd (snd a)) anomalies
      in if anomaly_scores = []
         then \<lparr> score = 0, confidence = 0.95,
                reason = Reason ''All parameters within normal statistical range'' [] \<rparr>
         else \<lparr> score = list_max anomaly_scores,
                confidence = min 0.95 (0.6 + real (length anomaly_scores) * 0.15),
                reason = (if length anomaly_details > 1
                          then add_suffix (hd anomaly_details) '' ({} anomalies total)''
                                 (length anomaly_details)
                          else hd anomaly_details) \<rparr>)"

subsection \<open>MODEL-2: false data injection detection\<close>

text \<open>An entry of the FDIA history or of the telemetry memory: voltage, frequency, power flow.\<close>

type_synonym vfp = "real \<times> real \<times> real"

definition fdia_update_history :: "vfp list \<Rightarrow> preprocessed \<Rightarrow> vfp list" where
  "fdia_update_history history d =
     append_bounded 50 history (voltage d, frequency d, power_flow d)"

text \<open>
  The test \<^verbatim>\<open>denominator == 0\<close> is exact here. On samples whose deviations from the mean
  are zero over the reals the float sums can be tiny non-zero numbers, and the code then
  returns the quotient of two rounding errors where this definition returns 0.
\<close>

definition compute_correlation :: "real list \<Rightarrow> real list \<Rightarrow> real" where
  "compute_correlation x y =
     (if length x \<noteq> length y \<or> length x < 2 then 0
      else
        (let n = real (length x);
             mean_x = sum_list x / n;
             mean_y = sum_list y / n;
             numerator = sum_list (map (\<lambda>p. (fst p - mean_x) * (snd p - mean_y)) (zip x y));
             sum_sq_x = sum_list (map (\<lambda>a. (a - mean_x)\<^sup>2) x);
             sum_sq_y = sum_list (map (\<lambda>b. (b - mean_y)\<^sup>2) y);
             denominator = sqrt (sum_sq_x * sum_sq_y)
         in if denominator = 0 then 0 else \<bar>numerator / denominator\<bar>))"

definition check_correlation_mismatch :: "history_entry list \<Rightarrow> real \<times> reason" where
  "check_correlation_mismatch history =
     (if length history < 5 then (0, no_reason)
      else
        (let recent_window = last_n temporal_window history;
             correlation = compute_correlation (map h_voltage recent_window)
                             (map h_frequency recent_window)
         in if correlation < correlation_threshold
            then (1 - correlation / correlation_threshold,
                  Reason ''V-f correlation breakdown ({:.2f} vs expected {:.2f})''
                    [correlation, 0.85])
            else (0, no_reason)))"

definition significant_changes :: "preprocessed \<Rightarrow> nat" where
  "significant_changes d =
     (if \<bar>delta_voltage d\<bar> > 0.05 then 1 else 0)
     + (if \<bar>delta_frequency d\<bar> > 0.2 then 1 else 0)
     + (if \<bar>delta_power_flow d\<bar> > 10 then 1 else 0)"

definition check_temporal_consistency :: "preprocessed \<Rightarrow> real \<times> reason" where
  "check_temporal_consistency d =
     (if significant_changes d \<ge> 2
      then (min 1 (real (significant_changes d) / 3 + 0.3),
            Reason ''Coordinated parameter changes detected ({} simultaneous)''
              [real (significant_changes d)])
      else (0, no_reason))"

definition check_multi_signal_coordination :: "vfp list \<Rightarrow> preprocessed \<Rightarrow> real \<times> reason" where
  "check_multi_signal_coordination history d =
     (if length history < 3 then (0, no_reason)
      else
        (let delta_v = delta_voltage d; delta_p = delta_power_flow d
         in if \<bar>delta_v\<bar> > 0.03 \<and> \<bar>delta_p\<bar> > 5
            then
              (if (delta_v > 0 \<and> delta_p < 0) \<or> (delta_v < 0 \<and> delta_p > 0)
               then (0.7, Reason ''Power-voltage coordination anomaly (opposite directions)'' [])
               else
                 (let actual_ratio = (if delta_v \<noteq> 0 then \<bar>delta_p / delta_v\<bar> else 0)
                  in if actual_ratio > 2 * 3 \<or> actual_ratio < 2 / 3
                     then (0.6, Reason ''Suspicious power-voltage magnitude coordination'' [])
                     else (0, no_reason)))
            else (0, no_reason)))"

definition fdia_analyze ::
  "vfp list \<Rightarrow> preprocessed \<Rightarrow> history_entry list \<Rightarrow> model_output \<times> vfp list" where
  "fdia_analyze history d telemetry_hist =
     (let history1 = fdia_update_history history d;
          indicators = fired
            [check_correlation_mismatch telemetry_hist,
             check_temporal_consistency d,
             check_multi_signal_coordination history1 d];
          fdia_scores = map fst indicators
      in (if fdia_scores = []
          then \<lparr> score = 0, confidence = 0.85, reason = Reason ''No FDIA indicators detected'' [] \<rparr>
          else \<lparr> score = sum_list fdia_scores / real (length fdia_scores),
                 confidence = min 0.95 (0.7 + real (length indicators) * 0.1),
                 reason = (if length indicators = 1 then snd (hd indicators)
                           else Reason ''Coordinated false data injection detected'' []) \<rparr>,
          history1))"

subsection \<open>MODEL-3: physics-aware validation\<close>

definition check_breaker_power_consistency :: "preprocessed \<Rightarrow> real \<times> reason" where
  "check_breaker_power_consistency d =
     (if breaker_status d = OFF \<and> \<bar>power_flow d\<bar> > breaker_off_power_tolerance
      then (1, Reason ''CRITICAL: Power flow {:.2f} MW with breaker OFF'' [power_flow d])
      else (0, no_reason))"

definition check_voltage_bounds :: "preprocessed \<Rightarrow> real \<times> reason" where
  "check_voltage_bounds d =
     (if voltage d < voltage_min
      then (min 1 ((voltage_min - voltage d) / voltage_min * 5),
            Reason ''Voltage {:.3f} p.u. below physical minimum {}'' [voltage d, voltage_min])
      else if voltage d > voltage_max
      then (min 1 ((voltage d - voltage_max) / voltage_max * 5),
            Reason ''Voltage {:.3f} p.u. exceeds physical maximum {}'' [voltage d, voltage_max])
      else (0, no_reason))"

definition check_frequency_bounds :: "preprocessed \<Rightarrow> real \<times> reason" where
  "check_frequency_bounds d =
     (if frequency d < frequency_min
      then (min 1 ((frequency_min - frequency d) / frequency_min * 10),
            Reason ''Frequency {:.2f} Hz below physical minimum {}'' [frequency d, frequency_min])
      else if frequency d > frequency_max
      then (min 1 ((frequency d - frequency_max) / frequency_max * 10),
            Reason ''Frequency {:.2f} Hz exceeds physical maximum {}'' [frequency d, frequency_max])
      else (0, no_reason))"

definition check_power_voltage_causality :: "preprocessed \<Rightarrow> real \<times> reason" where
  "check_power_voltage_causality d =
     (let delta_v = delta_voltage d; delta_p = delta_power_flow d
      in if \<bar>delta_v\<bar> > 0.02 \<and> \<bar>delta_p\<bar> > 3
            \<and> ((delta_v > 0 \<and> delta_p < 0) \<or> (delta_v < 0 \<and> delta_p > 0))
         then (0.6, Reason ''Power-voltage causality violation (opposite trends)'' [])
         else (0, no_reason))"

definition check_physical_impossibilities :: "preprocessed \<Rightarrow> real \<times> reason" where
  "check_physical_impossibilities d =
     (if voltage d < 0.01 \<and> frequency d > 1
      then (1, Reason ''CRITICAL: Frequency exists without voltage (impossible)'' [])
      else if voltage d < 0.01 \<and> \<bar>power_flow d\<bar> > 1
      then (1, Reason ''CRITICAL: Power flow without voltage (impossible)'' [])
      else if delta_time d > 0 \<and> \<bar>delta_frequency d\<bar> / delta_time d > 2
      then (0.8, Reason ''Physically impossible frequency rate of change: {:.2f} Hz/s''
                   [\<bar>delta_frequency d\<bar> / delta_time d])
      else (0, no_reason))"

definition physics_analyze :: "preprocessed \<Rightarrow> model_output" where
  "physics_analyze d =
     (let violations = fired
            [check_breaker_power_consistency d,
             check_voltage_bounds d,
             check_frequency_bounds d,
             check_power_voltage_causality d,
             check_physical_impossibilities d]
      in if violations = []
         then \<lparr> score = 0, confidence = 0.98,
                reason = Reason ''All physics constraints satisfied'' [] \<rparr>
         else \<lparr> score = list_max (map fst violations),
                confidence = 0.95,
                reason = (if length violations > 1
                          then add_suffix (snd (hd violations)) '' (+{} more violations)''
                                 (length violations - 1)
                          else snd (hd violations)) \<rparr>)"

subsection \<open>MODEL-4: behavioral pattern learning\<close>

record command =
  c_timestamp :: real
  c_hour :: nat
  c_breaker_status :: breaker
  c_breaker_changed :: bool

record behavior_model =
  command_history :: "command list"
  timestamp_history :: "real list"
  switch_count :: nat
  switch_timestamps :: "real list"

text \<open>\<^verbatim>\<open>data.get('breaker_changed', False)\<close>.\<close>

definition get_breaker_changed :: "preprocessed \<Rightarrow> bool" where
  "get_breaker_changed d = (case breaker_changed d of None \<Rightarrow> False | Some b \<Rightarrow> b)"

definition check_replay_attack :: "behavior_model \<Rightarrow> preprocessed \<Rightarrow> real \<times> reason" where
  "check_replay_attack b d =
     (if list_ex (\<lambda>past_timestamp. \<bar>timestamp_unix d - past_timestamp\<bar> < replay_time_tolerance)
           (timestamp_history b)
      then (0.9, Reason ''Replay attack detected (repeated timestamp)'' [])
      else (0, no_reason))"

definition check_off_hours_operation :: "preprocessed \<Rightarrow> real \<times> reason" where
  "check_off_hours_operation d =
     (if get_breaker_changed d
      then (if is_night d
            then (0.5, Reason ''Breaker operation during night hours ({}:00)'' [real (hour d)])
            else if is_weekend d
            then (0.4, Reason ''Breaker operation during weekend'' [])
            else (0, no_reason))
      else (0, no_reason))"

text \<open>
  The check appends the current time to \<open>switch_timestamps\<close> when the breaker changed,
  drops the entries older than one hour, stores the result and scores its length.
\<close>

definition recent_switches :: "behavior_model \<Rightarrow> preprocessed \<Rightarrow> real list" where
  "recent_switches b d =
     filter (\<lambda>t. t > timestamp_unix d - 3600)
       (if get_breaker_changed d then switch_timestamps b @ [timestamp_unix d]
        else switch_timestamps b)"

definition check_excessive_switching ::
  "behavior_model \<Rightarrow> preprocessed \<Rightarrow> (real \<times> reason) \<times> behavior_model" where
  "check_excessive_switching b d =
     (let recent = recent_switches b d
      in ((if length recent > max_switches_per_hour
           then (min 1 (real (length recent) / real (max_switches_per_hour * 2)),
                 Reason ''Excessive breaker toggling ({} switches in 1 hour)''
                   [real (length recent)])
           else (0, no_reason)),
          b\<lparr>switch_timestamps := recent\<rparr>))"

definition check_rapid_commands :: "preprocessed \<Rightarrow> real \<times> reason" where
  "check_rapid_commands d =
     (if get_breaker_changed d \<and> delta_time d < command_interval_min
      then (0.6, Reason ''Rapid command sequence ({:.1f}s interval, min {}s)''
                   [delta_time d, command_interval_min])
      else (0, no_reason))"

definition behavior_update_history :: "behavior_model \<Rightarrow> preprocessed \<Rightarrow> behavior_model" where
  "behavior_update_history b d =
     b\<lparr>command_history :=
         append_bounded pattern_memory_size (command_history b)
           \<lparr> c_timestamp = timestamp_unix d, c_hour = hour d,
             c_breaker_status = breaker_status d,
             c_breaker_changed = get_breaker_changed d \<rparr>,
       timestamp_history :=
         append_bounded pattern_memory_size (timestamp_history b) (timestamp_unix d)\<rparr>"

definition behavior_analyze ::
  "behavior_model \<Rightarrow> preprocessed \<Rightarrow> model_output \<times> behavior_model" where
  "behavior_analyze b d =
     (let c1 = check_replay_attack b d;
          c2 = check_off_hours_operation d;
          (c3, b1) = check_excessive_switching b d;
          c4 = check_rapid_commands d;
          b2 = behavior_update_history b1 d;
          found = fired [c1, c2, c3, c4]
      in (if found = []
          then \<lparr> score = 0, confidence = 0.75,
                 reason = Reason ''Normal operator behavior pattern'' [] \<rparr>
          else \<lparr> score = list_max (map fst found),
                 confidence = min 0.90 (0.65 + real (length found) * 0.1),
                 reason = (if length found > 1
                           then add_suffix (snd (hd found)) '' (+{} more anomalies)''
                                  (length found - 1)
                           else snd (hd found)) \<rparr>,
          b2))"

definition behavior_hour_counts :: "command list \<Rightarrow> (nat \<times> nat) list" where
  "behavior_hour_counts cmds =
     fold (\<lambda>c counts.
             AList.update (c_hour c)
               ((case map_of counts (c_hour c) of None \<Rightarrow> 0 | Some k \<Rightarrow> k) + 1) counts)
       cmds []"

text \<open>
  The behavior profile: total commands, total switches, the three most common hours
  (a stable sort by descending count) and the average switches per hour; the last two
  are absent while the command history is empty.
\<close>

definition get_behavior_profile :: "behavior_model \<Rightarrow> nat \<times> nat \<times> nat list \<times> real option" where
  "get_behavior_profile b =
     (if command_history b = [] then (0, 0, [], None)
      else
        (let total_commands = length (command_history b);
             total_switches = length (filter c_breaker_changed (command_history b));
             common_hours =
               take 3 (sort_key (\<lambda>hc. - int (snd hc)) (behavior_hour_counts (command_history b)))
         in (total_commands, total_switches, map fst common_hours,
             Some (real total_switches / max 1 (real total_commands / 60)))))"

subsection \<open>MODEL-5: memory and similarity\<close>

record signature =
  sig_name :: string
  sig_vector :: "real list"
  sig_description :: string

record memory_model =
  telemetry_memory :: "vfp list"
  attack_signatures :: "signature list"

definition initial_attack_signatures :: "signature list" where
  "initial_attack_signatures =
     [\<lparr> sig_name = ''FDIA coordinated injection'', sig_vector = [0.35, 1.05, 0.45],
        sig_description = ''Coordinated false data injection attack'' \<rparr>,
      \<lparr> sig_name = ''Voltage manipulation'', sig_vector = [0.45, 1.0, 0.3],
        sig_description = ''Isolated voltage data manipulation'' \<rparr>,
      \<lparr> sig_name = ''Zero-day pattern'', sig_vector = [0.25, 0.95, 0.5],
        sig_description = ''Previously observed zero-day attack'' \<rparr>]"

definition create_feature_vector :: "real \<Rightarrow> real \<Rightarrow> real \<Rightarrow> real list" where
  "create_feature_vector v f p = [v * 0.3, f / 50 * 0.3, p / 100 * 0.4]"

text \<open>
  The quotient is returned as computed, without clamping. Over the reals it is at most 1;
  the float quotient of the code can exceed it by a rounding error (the code returns
  1.0000000000000002 for some parallel vectors), so a bound proved here for a value that
  is a returned similarity is a bound up to that rounding.
\<close>

definition cosine_similarity :: "real list \<Rightarrow> real list \<Rightarrow> real" where
  "cosine_similarity vec1 vec2 =
     (if length vec1 \<noteq> length vec2 then 0
      else
        (let dot_product = sum_list (map (\<lambda>p. fst p * snd p) (zip vec1 vec2));
             magnitude1 = sqrt (sum_list (map (\<lambda>a. a * a) vec1));
             magnitude2 = sqrt (sum_list (map (\<lambda>b. b * b) vec2))
         in if magnitude1 = 0 \<or> magnitude2 = 0 then 0
            else dot_product / (magnitude1 * magnitude2)))"

definition euclidean_distance :: "real list \<Rightarrow> real list \<Rightarrow> real" where
  "euclidean_distance vec1 vec2 =
     (if length vec1 \<noteq> length vec2 then 0
      else sqrt (sum_list (map (\<lambda>p. (fst p - snd p)\<^sup>2) (zip vec1 vec2))))"

definition compute_baseline :: "vfp list \<Rightarrow> real list" where
  "compute_baseline mem =
     (if mem = [] then [0.3, 1.0, 0.0]
      else
        map (\<lambda>b. b / real (length mem))
          (fold (\<lambda>m baseline.
                   map (\<lambda>p. fst p + snd p)
                     (zip baseline (create_feature_vector (fst m) (fst (snd m)) (snd (snd m)))))
             mem [0, 0, 0]))"

definition update_memory :: "vfp list \<Rightarrow> preprocessed \<Rightarrow> vfp list" where
  "update_memory mem d = append_bounded history_size mem (voltage d, frequency d, power_flow d)"

fun check_attack_signatures :: "signature list \<Rightarrow> real list \<Rightarrow> real \<times> reason" where
  "check_attack_signatures [] current_vector = (0, no_reason)"
| "check_attack_signatures (sg # rest) current_vector =
     (let similarity = cosine_similarity current_vector (sig_vector sg)
      in if similarity > similarity_threshold
         then (similarity, Reason (''High similarity to '' @ sig_name sg @ '' ({:.2f})'') [similarity])
         else check_attack_signatures rest current_vector)"

definition check_pattern_repetition :: "real list \<Rightarrow> history_entry list \<Rightarrow> real \<times> reason" where
  "check_pattern_repetition current_vector history =
     (if length history < 10 then (0, no_reason)
      else
        (let high_similarity_count =
               length (filter
                 (\<lambda>h. cosine_similarity current_vector
                         (create_feature_vector (h_voltage h) (h_frequency h) (h_power_flow h))
                       > 0.98)
                 (last_n 20 history))
         in if high_similarity_count > 3
            then (min 1 (real high_similarity_count / 10),
                  Reason ''Suspicious pattern repetition detected ({} matches)''
                    [real high_similarity_count])
            else (0, no_reason)))"

definition check_baseline_deviation :: "vfp list \<Rightarrow> real list \<Rightarrow> real \<times> reason" where
  "check_baseline_deviation mem current_vector =
     (if length mem < 20 then (0, no_reason)
      else
        (let distance = euclidean_distance current_vector (compute_baseline mem);
             normalized_distance = min 1 (distance / 0.5)
         in if normalized_distance > 0.6
            then (normalized_distance,
                  Reason ''Significant deviation from learned baseline ({:.3f})'' [distance])
            else (0, no_reason)))"

definition memory_analyze ::
  "memory_model \<Rightarrow> preprocessed \<Rightarrow> history_entry list \<Rightarrow> model_output \<times> memory_model" where
  "memory_analyze m d telemetry_hist =
     (let mem1 = update_memory (telemetry_memory m) d;
          current_vector = create_feature_vector (voltage d) (frequency d) (power_flow d);
          found = fired
            [check_attack_signatures (attack_signatures m) current_vector,
             check_pattern_repetition current_vector telemetry_hist,
             check_baseline_deviation mem1 current_vector]
      in (if found = []
          then \<lparr> score = 0, confidence = 0.80,
                 reason = Reason ''No similarity to known attack patterns'' [] \<rparr>
          else \<lparr> score = list_max (map fst found),
                 confidence = min 0.95 (0.70 + real (length mem1) / 100 * 0.2),
                 reason = snd (hd found) \<rparr>,
          m\<lparr>telemetry_memory := mem1\<rparr>))"

definition add_attack_signature ::
  "memory_model \<Rightarrow> string \<Rightarrow> real \<Rightarrow> real \<Rightarrow> real \<Rightarrow> string \<Rightarrow> memory_model" where
  "add_attack_signature m name v f p description =
     m\<lparr>attack_signatures :=
         attack_signatures m
         @ [\<lparr> sig_name = name, sig_vector = create_feature_vector v f p,
              sig_description = description \<rparr>]\<rparr>"

text \<open>Memory size, number of signatures, and the baseline when the memory is not empty.\<close>

definition get_memory_stats :: "memory_model \<Rightarrow> nat \<times> nat \<times> real list option" where
  "get_memory_stats m =
     (length (telemetry_memory m), length (attack_signatures m),
      if telemetry_memory m = [] then None else Some (compute_baseline (telemetry_memory m)))"

section \<open>Fusion engine (fusion_engine.py)\<close>

text \<open>
  The five model outputs, and the dictionaries built from them as association lists in
  insertion order: anomaly, fdia, physics, behavior, memory.
\<close>

record model_outputs =
  mo_anomaly :: model_output
  mo_fdia :: model_output
  mo_physics :: model_output
  mo_behavior :: model_output
  mo_memory :: model_output

definition items_of :: "(model_output \<Rightarrow> 'a) \<Rightarrow> model_outputs \<Rightarrow> (string \<times> 'a) list" where
  "items_of field mo =
     [(''anomaly'', field (mo_anomaly mo)), (''fdia'', field (mo_fdia mo)),
      (''physics'', field (mo_physics mo)), (''behavior'', field (mo_behavior mo)),
      (''memory'', field (mo_memory mo))]"

text \<open>\<^verbatim>\<open>d.get(name, default)\<close> on an association list.\<close>

definition get_or :: "'a \<Rightarrow> (string \<times> 'a) list \<Rightarrow> string \<Rightarrow> 'a" where
  "get_or dflt d name = (case map_of d name of None \<Rightarrow> dflt | Some v \<Rightarrow> v)"

definition weighted_sum :: "(string \<times> real) list \<Rightarrow> (string \<times> real) list \<Rightarrow> real" where
  "weighted_sum weights items = fold (\<lambda>item acc. acc + get_or 0 weights (fst item) * snd item) items 0"

definition calculate_weighted_risk :: "(string \<times> real) list \<Rightarrow> (string \<times> real) list \<Rightarrow> real" where
  "calculate_weighted_risk weights scores = max 0 (min 1 (weighted_sum weights scores))"

definition calculate_weighted_confidence ::
  "(string \<times> real) list \<Rightarrow> (string \<times> real) list \<Rightarrow> real" where
  "calculate_weighted_confidence weights confidences =
     max 0 (min 1 (weighted_sum weights confidences))"

definition identify_primary_threat :: "(string \<times> real) list \<Rightarrow> string \<times> real" where
  "identify_primary_threat scores =
     (case scores of [] \<Rightarrow> (''none'', 0) | first # rest \<Rightarrow> py_max_by snd first rest)"

definition calculate_contributions ::
  "(string \<times> real) list \<Rightarrow> (string \<times> real) list \<Rightarrow> (string \<times> real) list" where
  "calculate_contributions weights scores =
     map (\<lambda>item. (fst item, py_round3 (get_or 0 weights (fst item) * snd item))) scores"

text \<open>The explanation templates with their interpolated parts.\<close>

datatype explanation =
    SafeMinorVariance reason
  | SafeNoThreat
  | WarningSupported reason reason
  | WarningOnly reason
  | CriticalMultiple reason nat
  | CriticalOnly reason
  | AnalysisError string

definition generate_safe_explanation ::
  "model_outputs \<Rightarrow> (string \<times> real) list \<Rightarrow> explanation" where
  "generate_safe_explanation mo scores =
     (let minor_concerns = map fst (filter (\<lambda>item. 0.1 < snd item \<and> snd item < 0.3) scores)
      in if minor_concerns \<noteq> []
         then SafeMinorVariance (get_or no_reason (items_of reason mo) (hd minor_concerns))
         else SafeNoThreat)"

definition generate_warning_explanation ::
  "string \<Rightarrow> model_outputs \<Rightarrow> (string \<times> real) list \<Rightarrow> explanation" where
  "generate_warning_explanation primary_threat mo scores =
     (let primary_reason = get_or (Reason ''Unknown'' []) (items_of reason mo) primary_threat;
          supporting =
            map fst (filter (\<lambda>item. fst item \<noteq> primary_threat \<and> snd item > 0.2) scores)
      in if supporting \<noteq> []
         then WarningSupported primary_reason
                (get_or no_reason (items_of reason mo) (hd supporting))
         else WarningOnly primary_reason)"

definition generate_critical_explanation ::
  "string \<Rightarrow> model_outputs \<Rightarrow> (string \<times> real) list \<Rightarrow> explanation" where
  "generate_critical_explanation primary_threat mo scores =
     (let primary_reason =
            get_or (Reason ''Unknown threat'' []) (items_of reason mo) primary_threat;
          high_threats = map fst (filter (\<lambda>item. snd item > 0.5) scores)
      in if length high_threats > 1
         then CriticalMultiple primary_reason (length high_threats)
         else CriticalOnly primary_reason)"

definition generate_explanation ::
  "decision \<Rightarrow> string \<Rightarrow> model_outputs \<Rightarrow> (string \<times> real) list \<Rightarrow> explanation" where
  "generate_explanation dec primary_threat mo scores =
     (if dec = SAFE then generate_safe_explanation mo scores
      else if dec = WARNING then generate_warning_explanation primary_threat mo scores
      else generate_critical_explanation primary_threat mo scores)"

record fusion_result =
  fr_final_risk :: real
  fr_confidence :: real
  fr_decision :: decision
  fr_explanation :: explanation
  fr_model_contributions :: "(string \<times> real) list"
  fr_primary_threat :: string
  fr_primary_threat_score :: real

definition fuse :: "(string \<times> real) list \<Rightarrow> model_outputs \<Rightarrow> fusion_result" where
  "fuse weights mo =
     (let scores = items_of score mo;
          final_risk = calculate_weighted_risk weights scores;
          overall_confidence = calculate_weighted_confidence weights (items_of confidence mo);
          dec = get_decision final_risk;
          primary = identify_primary_threat scores
      in \<lparr> fr_final_risk = py_round3 final_risk,
           fr_confidence = py_round3 overall_confidence,
           fr_decision = dec,
           fr_explanation = generate_explanation dec (fst primary) mo scores,
           fr_model_contributions = calculate_contributions weights scores,
           fr_primary_threat = fst primary,
           fr_primary_threat_score = py_round3 (snd primary) \<rparr>)"

text \<open>
  \<open>update_weights\<close> checks the sum of the values of its argument, then merges the
  argument into the stored dictionary (\<^verbatim>\<open>self.weights.update(new_weights)\<close>).
\<close>

definition update_weights ::
  "(string \<times> real) list \<Rightarrow> (string \<times> real) list \<Rightarrow> error + (string \<times> real) list" where
  "update_weights weights new_weights =
     (if \<bar>sum_list (map snd new_weights) - 1\<bar> > 0.01
      then Inl (ValueError ''Weights must sum to 1.0, got {}'')
      else Inr (fold (\<lambda>item w. AList.update (fst item) (snd item) w) new_weights weights))"

definition weights_sum :: "(string \<times> real) list \<Rightarrow> real" where
  "weights_sum weights = sum_list (map snd weights)"

section \<open>Pipeline orchestrator (ai_pipeline.py)\<close>

record pipeline =
  preprocessor :: preprocessor
  fdia_history :: "vfp list"
  behavior :: behavior_model
  memory :: memory_model
  fusion_weights :: "(string \<times> real) list"
  analysis_count :: nat

definition new_pipeline :: pipeline where
  "new_pipeline =
     \<lparr> preprocessor = \<lparr> last_telemetry = None, telemetry_history = [] \<rparr>,
       fdia_history = [],
       behavior = \<lparr> command_history = [], timestamp_history = [], switch_count = 0,
                    switch_timestamps = [] \<rparr>,
       memory = \<lparr> telemetry_memory = [], attack_signatures = initial_attack_signatures \<rparr>,
       fusion_weights = FUSION_WEIGHTS,
       analysis_count = 0 \<rparr>"

record analysis_details =
  primary_threat :: string
  primary_threat_score :: real
  model_contributions :: "(string \<times> real) list"
  individual_reasons :: "(string \<times> reason) list"
  det_analysis_count :: nat
  det_input_data :: "real \<times> real \<times> real \<times> breaker"

datatype details = Details analysis_details | ErrorDetails string string raw_input

record analysis_result =
  out_model_outputs :: "(string \<times> real) list"
  out_final_risk :: real
  out_decision :: decision
  out_confidence :: real
  out_explanation :: explanation
  out_details :: details

text \<open>
  \<open>s\<close> is the pipeline after preprocessing: the history already holds the current sample.
\<close>

definition execute_models :: "preprocessed \<Rightarrow> pipeline \<Rightarrow> model_outputs \<times> pipeline" where
  "execute_models d s =
     (let telemetry_hist = telemetry_history (preprocessor s);
          rolling_stats =
            (get_rolling_statistics (preprocessor s) h_voltage rolling_window,
             get_rolling_statistics (preprocessor s) h_frequency rolling_window,
             get_rolling_statistics (preprocessor s) h_power_flow rolling_window);
          fd = fdia_analyze (fdia_history s) d telemetry_hist;
          bh = behavior_analyze (behavior s) d;
          mm = memory_analyze (memory s) d telemetry_hist
      in (\<lparr> mo_anomaly = anomaly_analyze d rolling_stats,
            mo_fdia = fst fd,
            mo_physics = physics_analyze d,
            mo_behavior = fst bh,
            mo_memory = fst mm \<rparr>,
          s\<lparr>fdia_history := snd fd, behavior := snd bh, memory := snd mm\<rparr>))"

definition prepare_output ::
  "model_outputs \<Rightarrow> fusion_result \<Rightarrow> preprocessed \<Rightarrow> nat \<Rightarrow> analysis_result" where
  "prepare_output mo fr d count =
     \<lparr> out_model_outputs = items_of score mo,
       out_final_risk = fr_final_risk fr,
       out_decision = fr_decision fr,
       out_confidence = fr_confidence fr,
       out_explanation = fr_explanation fr,
       out_details = Details
         \<lparr> primary_threat = fr_primary_threat fr,
           primary_threat_score = fr_primary_threat_score fr,
           model_contributions = fr_model_contributions fr,
           individual_reasons = items_of reason mo,
           det_analysis_count = count,
           det_input_data = (voltage d, frequency d, power_flow d, breaker_status d) \<rparr> \<rparr>"

definition handle_error :: "error \<Rightarrow> raw_input \<Rightarrow> analysis_result" where
  "handle_error e input_data =
     \<lparr> out_model_outputs =
         [(''anomaly'', 0), (''fdia'', 0), (''physics'', 0), (''behavior'', 0), (''memory'', 0)],
       out_final_risk = 0,
       out_decision = ERROR,
       out_confidence = 0,
       out_explanation = AnalysisError (''Analysis error: '' @ error_message e),
       out_details = ErrorDetails (error_message e) (error_type e) input_data \<rparr>"

text \<open>
  The body of \<^verbatim>\<open>AIPipeline.analyze\<close> is one \<^verbatim>\<open>try\<close> block whose handler catches every
  exception and returns the error record. The exceptions of validation and of the datetime
  subtraction are values of \<open>preprocess\<close>. Any other exception comes from the float
  arithmetic or the datetime library on a validated input (a number too large to convert
  to a float, a float power out of range, a timestamp object without the string methods)
  and has no counterpart over the reals: \<open>raised\<close> says whether the call raises one, which,
  and where. The stage fixes what the interrupted call has already stored:

  \<^item> \<open>InPreprocess\<close>: before \<^verbatim>\<open>_compute_deltas\<close> stores the last sample; nothing is stored.
  \<^item> \<open>InStatistics\<close>: in the rolling statistics or the anomaly model; the preprocessor
    holds the sample, no model has stored anything.
  \<^item> \<open>InFdia\<close>: in the FDIA model after its history update, or in the physics model.
  \<^item> \<open>InMemory\<close>: in the memory model after its memory update; the FDIA and behavior
    models have run.

  The behavior model and the fusion engine compute on timestamps, counts, flags and
  scores only and are taken not to raise. \<^verbatim>\<open>analysis_count\<close> is incremented only on the
  path without exception.
\<close>

datatype failing_stage = InPreprocess | InStatistics | InFdia | InMemory

definition state_at_failure ::
  "failing_stage \<Rightarrow> pipeline \<Rightarrow> preprocessed \<times> preprocessor \<Rightarrow> pipeline" where
  "state_at_failure stage s r =
     (case stage of
        InPreprocess \<Rightarrow> s
      | InStatistics \<Rightarrow> s\<lparr>preprocessor := snd r\<rparr>
      | InFdia \<Rightarrow>
          s\<lparr>preprocessor := snd r,
            fdia_history := fdia_update_history (fdia_history s) (fst r)\<rparr>
      | InMemory \<Rightarrow>
          s\<lparr>preprocessor := snd r,
            fdia_history := fdia_update_history (fdia_history s) (fst r),
            behavior := snd (behavior_analyze (behavior s) (fst r)),
            memory := (memory s)\<lparr>telemetry_memory :=
                                   update_memory (telemetry_memory (memory s)) (fst r)\<rparr>\<rparr>)"

text \<open>
  \<open>analyze\<close> takes the exception raised by the arithmetic (if any), the clock reading
  \<open>now\<close> and the pipeline, and returns the output record and the pipeline after the call.
  An exception of \<open>preprocess\<close> is raised before the preprocessor stores anything, and no
  model runs after it.
\<close>

definition analyze ::
  "(failing_stage \<times> error) option \<Rightarrow> datetime \<Rightarrow> pipeline \<Rightarrow> raw_input
     \<Rightarrow> analysis_result \<times> pipeline" where
  "analyze raised now s input_data =
     (case preprocess now (preprocessor s) input_data of
        Inl e \<Rightarrow> (handle_error e input_data, s)
      | Inr r \<Rightarrow>
          (case raised of
             Some failure \<Rightarrow>
               (handle_error (snd failure) input_data, state_at_failure (fst failure) s r)
           | None \<Rightarrow>
               (let em = execute_models (fst r) (s\<lparr>preprocessor := snd r\<rparr>);
                    fusion = fuse (fusion_weights (snd em)) (fst em)
                in (prepare_output (fst em) fusion (fst r) (analysis_count (snd em)),
                    (snd em)\<lparr>analysis_count := analysis_count (snd em) + 1\<rparr>))))"

definition get_pipeline_stats ::
  "pipeline \<Rightarrow> nat \<times> nat \<times> (nat \<times> nat \<times> real list option)
     \<times> (nat \<times> nat \<times> nat list \<times> real option) \<times> (string \<times> real) list" where
  "get_pipeline_stats s =
     (analysis_count s, length (telemetry_history (preprocessor s)),
      get_memory_stats (memory s), get_behavior_profile (behavior s), fusion_weights s)"

definition reset :: "pipeline \<Rightarrow> pipeline" where
  "reset s =
     s\<lparr>preprocessor := preprocessor_reset (preprocessor s),
       fdia_history := [],
       behavior := (behavior s)\<lparr>command_history := [], timestamp_history := []\<rparr>,
       memory := (memory s)\<lparr>telemetry_memory := []\<rparr>,
       analysis_count := 0\<rparr>"

text \<open>
  Feeding a sequence of samples, each with the clock reading of its call and none of them
  raising in the arithmetic: the outputs in order, and the final pipeline.
\<close>

fun analyze_all :: "pipeline \<Rightarrow> (datetime \<times> raw_input) list \<Rightarrow> analysis_result list \<times> pipeline" where
  "analyze_all s [] = ([], s)"
| "analyze_all s (x # xs) =
     (let r = analyze None (fst x) s (snd x); rest = analyze_all (snd r) xs
      in (fst r # fst rest, snd rest))"

section \<open>Concrete inputs used by the witnesses and counterexamples\<close>

text \<open>
  Two clock readings (Monday 2026-02-02, 12:00:00 and 12:16:40, in a process whose local
  time is UTC), a raw sample with its four telemetry fields present and no key beside the
  documented ones, and a parseable timestamp without offset given by hour, weekday and
  unix time.
\<close>

definition clock_noon :: datetime where
  "clock_noon = \<lparr> dt_hour = 12, dt_weekday = 0, dt_unix = 1770033600 \<rparr>"

definition clock_later :: datetime where
  "clock_later = \<lparr> dt_hour = 12, dt_weekday = 0, dt_unix = 1770034600 \<rparr>"

definition sample :: "real \<Rightarrow> real \<Rightarrow> real \<Rightarrow> string \<Rightarrow> tstamp option \<Rightarrow> raw_input" where
  "sample v f p b ts =
     RawDict \<lparr> rf_voltage = Some (Num v), rf_frequency = Some (Num f),
               rf_power_flow = Some (Num p), rf_breaker_status = Some (Str b),
               rf_timestamp = ts, rf_breaker_changed = None \<rparr>"

definition stamp :: "nat \<Rightarrow> nat \<Rightarrow> real \<Rightarrow> tstamp option" where
  "stamp h wd u = Some (Naive \<lparr> dt_hour = h, dt_weekday = wd, dt_unix = u \<rparr>)"

text \<open>
  Samples ten seconds apart, from Wednesday 2026-02-04T10:00:00 on, whose breaker
  alternates ON, OFF, ON, ...; twelve of them.
\<close>

definition toggle_samples :: "nat \<Rightarrow> (datetime \<times> raw_input) list" where
  "toggle_samples n =
     map (\<lambda>i. (clock_noon,
               sample 1 50 0 (if even i then ''ON'' else ''OFF'') (stamp 10 2 (1770199200 + 10 * real i))))
       [0..<n]"

definition toggle_sequence :: "(datetime \<times> raw_input) list" where
  "toggle_sequence = toggle_samples 12"

text \<open>
  A behavior model whose command and timestamp histories are full: fifty commands one
  second apart, from 2026-02-04T07:26:40 on, none of them switching the breaker.
\<close>

definition full_behavior :: behavior_model where
  "full_behavior =
     \<lparr> command_history =
         map (\<lambda>i. \<lparr> c_timestamp = 1770190000 + real i, c_hour = 7,
                     c_breaker_status = ON, c_breaker_changed = False \<rparr>) [0..<50],
       timestamp_history = map (\<lambda>i. 1770190000 + real i) [0..<50],
       switch_count = 0, switch_timestamps = [] \<rparr>"

text \<open>
  A first sample that carries the key \<^verbatim>\<open>breaker_changed\<close> itself, stamped Sunday
  2026-02-01T23:00:00.
\<close>

definition flagged_sample :: raw_input where
  "flagged_sample =
     RawDict \<lparr> rf_voltage = Some (Num 1), rf_frequency = Some (Num 50),
               rf_power_flow = Some (Num 0), rf_breaker_status = Some (Str ''ON''),
               rf_timestamp = stamp 23 6 1769986800, rf_breaker_changed = Some True \<rparr>"

section \<open>Evaluation and state lemmas\<close>

lemmas preprocess_defs =
  preprocess_def validate_input_def present_not_def is_numeric_def is_on_off_def
  handle_missing_fields_def breaker_or_default_def normalize_values_def normalize_value_def
  extract_temporal_features_def compute_deltas_def time_delta_def update_history_def
  append_bounded_def history_size_def

lemmas scenario_defs = sample_def stamp_def clock_noon_def clock_later_def new_pipeline_def

text \<open>A failed validation makes \<open>analyze\<close> return the error record and the pipeline as it was.\<close>

lemma analyze_invalid:
  "validate_input x = Inl e \<Longrightarrow> analyze raised now s x = (handle_error e x, s)"
  by (simp add: analyze_def preprocess_def)

text \<open>
  The decision of the error record is ERROR, and no other record has it: a call whose
  decision is not ERROR passed preprocessing and raised nothing.
\<close>

lemma get_decision_not_error: "get_decision r \<noteq> ERROR"
  by (simp add: get_decision_def)

lemma analyze_not_error:
  "out_decision (fst (analyze raised now s x)) \<noteq> ERROR
   \<longleftrightarrow> raised = None \<and> (\<exists>r. preprocess now (preprocessor s) x = Inr r)"
  by (cases "preprocess now (preprocessor s) x"; cases raised)
     (simp_all add: analyze_def handle_error_def prepare_output_def fuse_def Let_def
        get_decision_not_error)

text \<open>The state a model leaves behind does not depend on the scores it computed.\<close>

lemma behavior_analyze_state:
  "snd (behavior_analyze b d) =
     behavior_update_history (b\<lparr>switch_timestamps := recent_switches b d\<rparr>) d"
  by (simp add: behavior_analyze_def check_excessive_switching_def Let_def split_def)

lemma fdia_analyze_state: "snd (fdia_analyze h d th) = fdia_update_history h d"
  by (simp add: fdia_analyze_def Let_def)

lemma memory_analyze_state:
  "snd (memory_analyze m d th) = m\<lparr>telemetry_memory := update_memory (telemetry_memory m) d\<rparr>"
  by (simp add: memory_analyze_def Let_def)

lemma analyze_state:
  assumes "preprocess now (preprocessor s) x = Inr (d, pre')"
  shows "snd (analyze None now s x) =
     s\<lparr>preprocessor := pre',
       fdia_history := fdia_update_history (fdia_history s) d,
       behavior := behavior_update_history
                     ((behavior s)\<lparr>switch_timestamps := recent_switches (behavior s) d\<rparr>) d,
       memory := (memory s)\<lparr>telemetry_memory := update_memory (telemetry_memory (memory s)) d\<rparr>,
       analysis_count := analysis_count s + 1\<rparr>"
  using assms
  by (simp add: analyze_def execute_models_def Let_def behavior_analyze_state
      fdia_analyze_state memory_analyze_state)

lemma analyze_state_case:
  "snd (analyze None now s x) =
     (case preprocess now (preprocessor s) x of
        Inl e \<Rightarrow> s
      | Inr r \<Rightarrow>
          s\<lparr>preprocessor := snd r,
            fdia_history := fdia_update_history (fdia_history s) (fst r),
            behavior := behavior_update_history
                          ((behavior s)\<lparr>switch_timestamps := recent_switches (behavior s) (fst r)\<rparr>)
                          (fst r),
            memory := (memory s)\<lparr>telemetry_memory :=
                                     update_memory (telemetry_memory (memory s)) (fst r)\<rparr>,
            analysis_count := analysis_count s + 1\<rparr>)"
  by (cases "preprocess now (preprocessor s) x")
     (simp_all add: analyze_def execute_models_def Let_def behavior_analyze_state
        fdia_analyze_state memory_analyze_state)

lemma analyze_behavior_score:
  assumes "preprocess now (preprocessor s) x = Inr r"
  shows "map_of (out_model_outputs (fst (analyze None now s x))) ''behavior''
         = Some (score (fst (behavior_analyze (behavior s) (fst r))))"
  using assms
  by (simp add: analyze_def execute_models_def prepare_output_def items_of_def Let_def)

lemma append_bounded_eq:
  "append_bounded cap xs x = (if length xs < cap then xs @ [x] else tl (xs @ [x]))"
  by (auto simp add: append_bounded_def Let_def)

lemma append_bounded_length:
  "length xs \<le> cap \<Longrightarrow> length (append_bounded cap xs x) \<le> cap"
  by (auto simp add: append_bounded_def Let_def)

text \<open>
  With no previous sample stored the deltas are zero and the flag of the preprocessed
  sample is the raw key of the input; with a previous sample stored the flag is computed
  from the two breaker states, whatever the raw key says.
\<close>

lemma preprocess_first:
  assumes "last_telemetry pre = None" and "preprocess now pre (RawDict rf) = Inr (d, pre')"
  shows "delta_voltage d = 0 \<and> delta_frequency d = 0 \<and> delta_power_flow d = 0
         \<and> delta_time d = 0 \<and> breaker_changed d = rf_breaker_changed rf"
  using assms
  by (auto simp add: preprocess_def compute_deltas_def validate_input_def
      handle_missing_fields_def Let_def split_def split: sum.splits if_splits)

lemma preprocess_later:
  assumes "last_telemetry pre = Some lst" and "preprocess now pre x = Inr (d, pre')"
  shows "breaker_changed d = Some (breaker_status d \<noteq> breaker_status lst)"
  using assms
  by (auto simp add: preprocess_def compute_deltas_def Let_def split_def
      split: sum.splits)

lemma preprocess_clock_free:
  assumes "x = RawDict d" and "rf_timestamp d = Some ts" and "ts \<noteq> Unparseable"
  shows "preprocess now1 pre x = preprocess now2 pre x"
proof -
  have h: "handle_missing_fields now1 d = handle_missing_fields now2 d"
    using assms by (simp add: handle_missing_fields_def)
  have t: "timestamp (handle_missing_fields now2 d) = ts"
    using assms by (simp add: handle_missing_fields_def)
  have e: "extract_temporal_features now1 (handle_missing_fields now2 d)
        = extract_temporal_features now2 (handle_missing_fields now2 d)"
    using assms t by (cases ts) (simp_all add: extract_temporal_features_def)
  show ?thesis
    using assms(1) h e
    by (simp add: preprocess_def validate_input_def Let_def split: sum.splits)
qed

section \<open>Primary threat and ties\<close>

lemma py_max_by_decomp:
  "\<exists>ps qs. best # xs = ps @ py_max_by key best xs # qs
     \<and> (\<forall>y\<in>set ps. key y < key (py_max_by key best xs))
     \<and> (\<forall>y\<in>set qs. key y \<le> key (py_max_by key best xs))"
proof (induction xs arbitrary: best)
  case Nil
  show ?case by (rule exI [of _ "[]"], rule exI [of _ "[]"]) simp
next
  case (Cons x xs)
  show ?case
  proof (cases "key best < key x")
    case True
    define r where "r = py_max_by key x xs"
    from True have res: "py_max_by key best (x # xs) = r" by (simp add: r_def)
    from Cons.IH [of x] obtain ps qs where
      d: "x # xs = ps @ r # qs" and
      lt: "\<forall>y\<in>set ps. key y < key r" and
      le: "\<forall>y\<in>set qs. key y \<le> key r"
      unfolding r_def by blast
    have "key x \<le> key r"
    proof (cases ps)
      case Nil
      with d have "x = r" by simp
      then show ?thesis by simp
    next
      case (Cons p ps')
      with d have "x \<in> set ps" by simp
      with lt show ?thesis by force
    qed
    with True have "key best < key r" by simp
    with lt have lt': "\<forall>y\<in>set (best # ps). key y < key r" by simp
    from d have "best # x # xs = (best # ps) @ r # qs" by simp
    with lt' le show ?thesis unfolding res by blast
  next
    case False
    define r where "r = py_max_by key best xs"
    from False have res: "py_max_by key best (x # xs) = r" by (simp add: r_def)
    from Cons.IH [of best] obtain ps qs where
      d: "best # xs = ps @ r # qs" and
      lt: "\<forall>y\<in>set ps. key y < key r" and
      le: "\<forall>y\<in>set qs. key y \<le> key r"
      unfolding r_def by blast
    show ?thesis
    proof (cases ps)
      case Nil
      with d have rb: "r = best" and q: "qs = xs" by simp_all
      have e: "best # x # xs = [] @ r # (x # xs)" using rb by simp
      have "\<forall>y\<in>set (x # xs). key y \<le> key r" using le q rb False by auto
      with e show ?thesis unfolding res by (metis empty_iff list.set(1))
    next
      case (Cons p ps')
      with d have pb: "p = best" and xs: "xs = ps' @ r # qs" by simp_all
      from Cons pb lt have "key best < key r" by simp
      with False have "key x < key r" by simp
      with lt Cons have lt': "\<forall>y\<in>set (best # x # ps'). key y < key r" using pb by auto
      have "best # x # xs = (best # x # ps') @ r # qs" using xs by simp
      with lt' le show ?thesis unfolding res by blast
    qed
  qed
qed

lemma identify_primary_threat_items:
  "\<exists>ps qs. items_of score mo = ps @ identify_primary_threat (items_of score mo) # qs
     \<and> (\<forall>y\<in>set ps. snd y < snd (identify_primary_threat (items_of score mo)))
     \<and> (\<forall>y\<in>set qs. snd y \<le> snd (identify_primary_threat (items_of score mo)))"
  using py_max_by_decomp [of "(''anomaly'', score (mo_anomaly mo))"
      "[(''fdia'', score (mo_fdia mo)), (''physics'', score (mo_physics mo)),
        (''behavior'', score (mo_behavior mo)), (''memory'', score (mo_memory mo))]" snd]
  by (simp add: identify_primary_threat_def items_of_def)

text \<open>
  Claim C8. The score dictionary of \<open>fuse\<close> lists the models in the order anomaly, fdia,
  physics, behavior, memory, and the primary threat is its first maximal entry: anomaly
  when no model scores more than it, otherwise fdia when none of physics, behavior and
  memory scores more than it, otherwise physics when neither behavior nor memory scores
  more than it, otherwise behavior when memory does not score more than it, otherwise
  memory. So among models sharing the maximal score the earliest in that order is named;
  in particular, when all five scores are 0.0 the primary threat is anomaly.
\<close>

theorem primary_threat_first_maximal:
  "items_of score mo =
     [(''anomaly'', score (mo_anomaly mo)), (''fdia'', score (mo_fdia mo)),
      (''physics'', score (mo_physics mo)), (''behavior'', score (mo_behavior mo)),
      (''memory'', score (mo_memory mo))]
   \<and> fr_primary_threat (fuse w mo) =
       (if score (mo_fdia mo) \<le> score (mo_anomaly mo)
           \<and> score (mo_physics mo) \<le> score (mo_anomaly mo)
           \<and> score (mo_behavior mo) \<le> score (mo_anomaly mo)
           \<and> score (mo_memory mo) \<le> score (mo_anomaly mo)
        then ''anomaly''
        else if score (mo_physics mo) \<le> score (mo_fdia mo)
           \<and> score (mo_behavior mo) \<le> score (mo_fdia mo)
           \<and> score (mo_memory mo) \<le> score (mo_fdia mo)
        then ''fdia''
        else if score (mo_behavior mo) \<le> score (mo_physics mo)
           \<and> score (mo_memory mo) \<le> score (mo_physics mo)
        then ''physics''
        else if score (mo_memory mo) \<le> score (mo_behavior mo)
        then ''behavior''
        else ''memory'')
   \<and> (score (mo_anomaly mo) = 0 \<and> score (mo_fdia mo) = 0 \<and> score (mo_physics mo) = 0
        \<and> score (mo_behavior mo) = 0 \<and> score (mo_memory mo) = 0
      \<longrightarrow> fr_primary_threat (fuse w mo) = ''anomaly'')"
proof (intro conjI)
  show "items_of score mo =
     [(''anomaly'', score (mo_anomaly mo)), (''fdia'', score (mo_fdia mo)),
      (''physics'', score (mo_physics mo)), (''behavior'', score (mo_behavior mo)),
      (''memory'', score (mo_memory mo))]"
    by (simp add: items_of_def)
next
  define a where "a = score (mo_anomaly mo)"
  define f where "f = score (mo_fdia mo)"
  define p where "p = score (mo_physics mo)"
  define b where "b = score (mo_behavior mo)"
  define m where "m = score (mo_memory mo)"
  have "fr_primary_threat (fuse w mo) =
      fst (py_max_by snd (''anomaly'', a)
             [(''fdia'', f), (''physics'', p), (''behavior'', b), (''memory'', m)])"
    by (simp add: fuse_def Let_def identify_primary_threat_def items_of_def
        a_def f_def p_def b_def m_def)
  also have "\<dots> =
       (if f \<le> a \<and> p \<le> a \<and> b \<le> a \<and> m \<le> a then ''anomaly''
        else if p \<le> f \<and> b \<le> f \<and> m \<le> f then ''fdia''
        else if b \<le> p \<and> m \<le> p then ''physics''
        else if m \<le> b then ''behavior''
        else ''memory'')"
    by (auto simp add: not_le not_less)
  finally show "fr_primary_threat (fuse w mo) =
       (if score (mo_fdia mo) \<le> score (mo_anomaly mo)
           \<and> score (mo_physics mo) \<le> score (mo_anomaly mo)
           \<and> score (mo_behavior mo) \<le> score (mo_anomaly mo)
           \<and> score (mo_memory mo) \<le> score (mo_anomaly mo)
        then ''anomaly''
        else if score (mo_physics mo) \<le> score (mo_fdia mo)
           \<and> score (mo_behavior mo) \<le> score (mo_fdia mo)
           \<and> score (mo_memory mo) \<le> score (mo_fdia mo)
        then ''fdia''
        else if score (mo_behavior mo) \<le> score (mo_physics mo)
           \<and> score (mo_memory mo) \<le> score (mo_physics mo)
        then ''physics''
        else if score (mo_memory mo) \<le> score (mo_behavior mo)
        then ''behavior''
        else ''memory'')"
    by (simp only: a_def f_def p_def b_def m_def)
next
  show "score (mo_anomaly mo) = 0 \<and> score (mo_fdia mo) = 0 \<and> score (mo_physics mo) = 0
        \<and> score (mo_behavior mo) = 0 \<and> score (mo_memory mo) = 0
      \<longrightarrow> fr_primary_threat (fuse w mo) = ''anomaly''"
    by (simp add: fuse_def Let_def identify_primary_threat_def items_of_def)
qed

theorem primary_threat_first_maximal_witness:
  "score \<lparr>score = 0, confidence = 0, reason = no_reason\<rparr> = 0
   \<and> fr_primary_threat (fuse FUSION_WEIGHTS
        \<lparr> mo_anomaly = \<lparr>score = 0, confidence = 0, reason = no_reason\<rparr>,
          mo_fdia = \<lparr>score = 0, confidence = 0, reason = no_reason\<rparr>,
          mo_physics = \<lparr>score = 0, confidence = 0, reason = no_reason\<rparr>,
          mo_behavior = \<lparr>score = 0, confidence = 0, reason = no_reason\<rparr>,
          mo_memory = \<lparr>score = 0, confidence = 0, reason = no_reason\<rparr> \<rparr>) = ''anomaly''
   \<and> fr_primary_threat (fuse FUSION_WEIGHTS
        \<lparr> mo_anomaly = \<lparr>score = 0.2, confidence = 0, reason = no_reason\<rparr>,
          mo_fdia = \<lparr>score = 0.7, confidence = 0, reason = no_reason\<rparr>,
          mo_physics = \<lparr>score = 0.7, confidence = 0, reason = no_reason\<rparr>,
          mo_behavior = \<lparr>score = 0.1, confidence = 0, reason = no_reason\<rparr>,
          mo_memory = \<lparr>score = 0.7, confidence = 0, reason = no_reason\<rparr> \<rparr>) = ''fdia''"
  using primary_threat_first_maximal
    [of "\<lparr> mo_anomaly = \<lparr>score = 0, confidence = 0, reason = no_reason\<rparr>,
          mo_fdia = \<lparr>score = 0, confidence = 0, reason = no_reason\<rparr>,
          mo_physics = \<lparr>score = 0, confidence = 0, reason = no_reason\<rparr>,
          mo_behavior = \<lparr>score = 0, confidence = 0, reason = no_reason\<rparr>,
          mo_memory = \<lparr>score = 0, confidence = 0, reason = no_reason\<rparr> \<rparr>" FUSION_WEIGHTS]
    primary_threat_first_maximal
    [of "\<lparr> mo_anomaly = \<lparr>score = 0.2, confidence = 0, reason = no_reason\<rparr>,
          mo_fdia = \<lparr>score = 0.7, confidence = 0, reason = no_reason\<rparr>,
          mo_physics = \<lparr>score = 0.7, confidence = 0, reason = no_reason\<rparr>,
          mo_behavior = \<lparr>score = 0.1, confidence = 0, reason = no_reason\<rparr>,
          mo_memory = \<lparr>score = 0.7, confidence = 0, reason = no_reason\<rparr> \<rparr>" FUSION_WEIGHTS]
  by simp

section \<open>Validation errors\<close>

text \<open>
  Claim C2. When the input dictionary carries none of voltage, frequency and power_flow,
  or a present numeric field is not numeric, or breaker_status is present and neither ON
  nor OFF, \<open>preprocess\<close> raises a PreprocessingError and \<open>analyze\<close> returns a record
  with decision ERROR, the five model scores 0.0, final risk 0.0, confidence 0.0, the
  message in the explanation and in the details.
\<close>

theorem analyze_validation_error_record:
  assumes "x = RawDict d"
    and "(rf_voltage d = None \<and> rf_frequency d = None \<and> rf_power_flow d = None)
         \<or> present_not is_numeric (rf_voltage d)
         \<or> present_not is_numeric (rf_frequency d)
         \<or> present_not is_numeric (rf_power_flow d)
         \<or> present_not is_on_off (rf_breaker_status d)"
  shows "\<exists>msg. preprocess now (preprocessor s) x = Inl (PreprocessingError msg)
           \<and> fst (analyze raised now s x) =
               \<lparr> out_model_outputs =
                   [(''anomaly'', 0), (''fdia'', 0), (''physics'', 0), (''behavior'', 0),
                    (''memory'', 0)],
                 out_final_risk = 0,
                 out_decision = ERROR,
                 out_confidence = 0,
                 out_explanation = AnalysisError (''Analysis error: '' @ msg),
                 out_details = ErrorDetails msg ''PreprocessingError'' x \<rparr>"
proof -
  from assms have "\<exists>msg. validate_input x = Inl (PreprocessingError msg)"
    by (auto simp add: validate_input_def)
  then obtain msg where v: "validate_input x = Inl (PreprocessingError msg)" ..
  then have "preprocess now (preprocessor s) x = Inl (PreprocessingError msg)"
    by (simp add: preprocess_def)
  moreover from v have "fst (analyze raised now s x) = handle_error (PreprocessingError msg) x"
    by (simp add: analyze_invalid)
  ultimately show ?thesis by (simp add: handle_error_def)
qed

theorem analyze_validation_error_record_witness:
  "present_not is_numeric (Some (Str ''high''))
   \<and> fst (analyze None clock_noon new_pipeline
        (RawDict \<lparr> rf_voltage = Some (Str ''high''), rf_frequency = None,
                   rf_power_flow = None, rf_breaker_status = None, rf_timestamp = None,
                rf_breaker_changed = None \<rparr>)) =
       \<lparr> out_model_outputs =
           [(''anomaly'', 0), (''fdia'', 0), (''physics'', 0), (''behavior'', 0), (''memory'', 0)],
         out_final_risk = 0,
         out_decision = ERROR,
         out_confidence = 0,
         out_explanation = AnalysisError ''Analysis error: Voltage must be numeric'',
         out_details = ErrorDetails ''Voltage must be numeric'' ''PreprocessingError''
           (RawDict \<lparr> rf_voltage = Some (Str ''high''), rf_frequency = None,
                      rf_power_flow = None, rf_breaker_status = None, rf_timestamp = None,
                rf_breaker_changed = None \<rparr>) \<rparr>"
proof -
  let ?d = "\<lparr> rf_voltage = Some (Str ''high''), rf_frequency = None,
              rf_power_flow = None, rf_breaker_status = None, rf_timestamp = None,
                rf_breaker_changed = None \<rparr>"
  have h: "(rf_voltage ?d = None \<and> rf_frequency ?d = None \<and> rf_power_flow ?d = None)
         \<or> present_not is_numeric (rf_voltage ?d)
         \<or> present_not is_numeric (rf_frequency ?d)
         \<or> present_not is_numeric (rf_power_flow ?d)
         \<or> present_not is_on_off (rf_breaker_status ?d)"
    by (simp add: present_not_def is_numeric_def)
  have p: "preprocess clock_noon (preprocessor new_pipeline) (RawDict ?d) =
      Inl (PreprocessingError ''Voltage must be numeric'')"
    by (simp add: preprocess_def validate_input_def present_not_def is_numeric_def)
  from analyze_validation_error_record [OF refl h, of clock_noon new_pipeline None] p
  show ?thesis by (auto simp add: present_not_def is_numeric_def)
qed

text \<open>
  Claim C9. When validation fails, \<open>analyze\<close> returns the ERROR record and the pipeline
  is the one it was called on: the analysis count and the pipeline statistics are
  unchanged, and every later analysis behaves as if the rejected input had not been sent.
\<close>

theorem validation_error_leaves_state:
  assumes "validate_input x = Inl e"
  shows "out_decision (fst (analyze raised now s x)) = ERROR
         \<and> snd (analyze raised now s x) = s
         \<and> analysis_count (snd (analyze raised now s x)) = analysis_count s
         \<and> get_pipeline_stats (snd (analyze raised now s x)) = get_pipeline_stats s
         \<and> analyze raised' now' (snd (analyze raised now s x)) y = analyze raised' now' s y"
  using assms by (simp add: analyze_invalid handle_error_def)

theorem validation_error_leaves_state_witness:
  "validate_input (RawDict \<lparr> rf_voltage = Some (Str ''high''), rf_frequency = None,
                   rf_power_flow = None, rf_breaker_status = None, rf_timestamp = None,
                rf_breaker_changed = None \<rparr>)
     = Inl (PreprocessingError ''Voltage must be numeric'')
   \<and> snd (analyze None clock_noon new_pipeline
        (RawDict \<lparr> rf_voltage = Some (Str ''high''), rf_frequency = None,
                   rf_power_flow = None, rf_breaker_status = None, rf_timestamp = None,
                rf_breaker_changed = None \<rparr>))
     = new_pipeline"
proof -
  have h: "validate_input (RawDict \<lparr> rf_voltage = Some (Str ''high''), rf_frequency = None,
                   rf_power_flow = None, rf_breaker_status = None, rf_timestamp = None,
                rf_breaker_changed = None \<rparr>)
     = Inl (PreprocessingError ''Voltage must be numeric'')"
    by (simp add: validate_input_def present_not_def is_numeric_def)
  from validation_error_leaves_state [OF h, of None clock_noon new_pipeline] h
  show ?thesis by simp
qed

section \<open>The first sample\<close>

text \<open>
  A first sample without a \<^verbatim>\<open>breaker_changed\<close> key of its own: the preprocessed record
  has no such key, the flag read with its default is false, the off-hours check and the
  rapid-command check score 0 and the excessive-switching check appends nothing.
\<close>

lemma first_sample_no_breaker_flag:
  assumes "last_telemetry pre = None" and "preprocess now pre (RawDict rf) = Inr (d, pre')"
    and "rf_breaker_changed rf = None"
  shows "delta_voltage d = 0 \<and> delta_frequency d = 0 \<and> delta_power_flow d = 0
         \<and> delta_time d = 0 \<and> breaker_changed d = None
         \<and> get_breaker_changed d = False
         \<and> check_off_hours_operation d = (0, no_reason)
         \<and> check_rapid_commands d = (0, no_reason)
         \<and> switch_timestamps (snd (check_excessive_switching b d)) =
             filter (\<lambda>t. t > timestamp_unix d - 3600) (switch_timestamps b)"
  using preprocess_first [OF assms(1,2)] assms(3)
  by (simp add: get_breaker_changed_def check_off_hours_operation_def
      check_rapid_commands_def check_excessive_switching_def recent_switches_def Let_def)

text \<open>
  Claim C10 at the failing input. The first sample of a fresh pipeline, stamped Sunday
  23:00, carries \<^verbatim>\<open>breaker_changed: True\<close> beside the documented keys. The first-call
  branch of \<^verbatim>\<open>_compute_deltas\<close> sets the four zero deltas and leaves the key as the
  caller sent it, where the branch for later calls overwrites it. The preprocessed record
  has the flag set, the off-hours check scores 0.5, the rapid-command check scores 0.6
  (the delta time 0.0 is below the five seconds), the excessive-switching check appends
  the time to the switch timestamps, and the behavior score of the call is 0.6.
\<close>

theorem first_sample_raw_flag_fires:
  "last_telemetry (preprocessor new_pipeline) = None
   \<and> breaker_changed (fst (projr (preprocess clock_noon (preprocessor new_pipeline)
        flagged_sample))) = Some True
   \<and> delta_time (fst (projr (preprocess clock_noon (preprocessor new_pipeline)
        flagged_sample))) = 0
   \<and> check_off_hours_operation (fst (projr (preprocess clock_noon (preprocessor new_pipeline)
        flagged_sample))) = (0.5, Reason ''Breaker operation during night hours ({}:00)'' [23])
   \<and> fst (check_rapid_commands (fst (projr (preprocess clock_noon (preprocessor new_pipeline)
        flagged_sample)))) = 0.6
   \<and> switch_timestamps (behavior (snd (analyze None clock_noon new_pipeline flagged_sample)))
       = [1769986800]
   \<and> map_of (out_model_outputs (fst (analyze None clock_noon new_pipeline flagged_sample)))
        ''behavior'' = Some 0.6"
proof -
  define r where "r = projr (preprocess clock_noon (preprocessor new_pipeline) flagged_sample)"
  have p: "preprocess clock_noon (preprocessor new_pipeline) flagged_sample = Inr r"
    by (simp add: r_def preprocess_defs scenario_defs flagged_sample_def Let_def)
  have f: "breaker_changed (fst r) = Some True" "delta_time (fst r) = 0"
    "is_night (fst r)" "hour (fst r) = 23" "timestamp_unix (fst r) = 1769986800"
    by (simp_all add: r_def preprocess_defs scenario_defs flagged_sample_def Let_def)
  have n: "last_telemetry (preprocessor new_pipeline) = None"
    "timestamp_history (behavior new_pipeline) = []"
    "switch_timestamps (behavior new_pipeline) = []"
    by (simp_all add: new_pipeline_def)
  have c2: "check_off_hours_operation (fst r) =
      (0.5, Reason ''Breaker operation during night hours ({}:00)'' [23])"
    using f by (simp add: check_off_hours_operation_def get_breaker_changed_def Let_def)
  have c4: "fst (check_rapid_commands (fst r)) = 0.6"
    using f by (simp add: check_rapid_commands_def get_breaker_changed_def
        command_interval_min_def Let_def)
  have sw: "switch_timestamps (behavior (snd (analyze None clock_noon new_pipeline flagged_sample)))
       = [1769986800]"
    using f n p
    by (simp add: analyze_state_case behavior_update_history_def recent_switches_def
        get_breaker_changed_def)
  have "score (fst (behavior_analyze (behavior new_pipeline) (fst r))) = 0.6"
    using f n c2 c4
    by (simp add: behavior_analyze_def check_replay_attack_def check_excessive_switching_def
        recent_switches_def check_rapid_commands_def get_breaker_changed_def fired_def
        max_switches_per_hour_def command_interval_min_def Let_def split_def)
  with analyze_behavior_score [OF p]
  have sc: "map_of (out_model_outputs (fst (analyze None clock_noon new_pipeline flagged_sample)))
        ''behavior'' = Some 0.6"
    by simp
  from n(1) f(1,2) c2 c4 sw sc show ?thesis unfolding r_def by simp
qed

section \<open>The clock\<close>

text \<open>
  Claim C7, as the code has it. \<open>analyze\<close> reads the clock when the timestamp is missing
  or unparseable. For an input whose timestamp is present and parseable, the output
  record and the pipeline after the call do not depend on the clock reading.
\<close>

theorem analyze_clock_free_with_timestamp:
  assumes "x = RawDict d" and "rf_timestamp d = Some ts" and "ts \<noteq> Unparseable"
  shows "analyze raised now1 s x = analyze raised now2 s x"
  using preprocess_clock_free [OF assms, of now1 "preprocessor s" now2]
  by (simp add: analyze_def)

theorem analyze_clock_free_with_timestamp_witness:
  "stamp 10 2 1770199200 = Some (Naive \<lparr> dt_hour = 10, dt_weekday = 2, dt_unix = 1770199200 \<rparr>)
   \<and> Naive \<lparr> dt_hour = 10, dt_weekday = 2, dt_unix = 1770199200 \<rparr> \<noteq> Unparseable
   \<and> analyze None clock_noon new_pipeline (sample 1 50 100 ''ON'' (stamp 10 2 1770199200))
       = analyze None clock_later new_pipeline (sample 1 50 100 ''ON'' (stamp 10 2 1770199200))"
proof -
  have a: "sample 1 50 100 ''ON'' (stamp 10 2 1770199200) =
      RawDict \<lparr> rf_voltage = Some (Num 1), rf_frequency = Some (Num 50),
                rf_power_flow = Some (Num 100), rf_breaker_status = Some (Str ''ON''),
                rf_timestamp = stamp 10 2 1770199200,
                rf_breaker_changed = None \<rparr>"
    by (simp add: sample_def)
  have b: "rf_timestamp \<lparr> rf_voltage = Some (Num 1), rf_frequency = Some (Num 50),
                rf_power_flow = Some (Num 100), rf_breaker_status = Some (Str ''ON''),
                rf_timestamp = stamp 10 2 1770199200,
                rf_breaker_changed = None \<rparr>
           = Some (Naive \<lparr> dt_hour = 10, dt_weekday = 2, dt_unix = 1770199200 \<rparr>)"
    by (simp add: stamp_def)
  have c: "Naive \<lparr> dt_hour = 10, dt_weekday = 2, dt_unix = 1770199200 \<rparr> \<noteq> Unparseable" by simp
  from analyze_clock_free_with_timestamp [OF a b c, of None clock_noon new_pipeline clock_later]
  show ?thesis by (simp add: stamp_def)
qed

text \<open>
  Claim C7 as stated fails: the same input without a timestamp, on the same fresh
  pipeline, at two clock readings, gives two different results.
\<close>

theorem analyze_depends_on_clock:
  "analyze None clock_noon new_pipeline (sample 1 50 100 ''ON'' None)
     \<noteq> analyze None clock_later new_pipeline (sample 1 50 100 ''ON'' None)"
proof
  assume "analyze None clock_noon new_pipeline (sample 1 50 100 ''ON'' None)
     = analyze None clock_later new_pipeline (sample 1 50 100 ''ON'' None)"
  then have "timestamp_history (behavior (snd (analyze None clock_noon new_pipeline (sample 1 50 100 ''ON'' None))))
     = timestamp_history (behavior (snd (analyze None clock_later new_pipeline (sample 1 50 100 ''ON'' None))))"
    by simp
  then show False
    by (simp add: analyze_state_case preprocess_defs scenario_defs Let_def
        behavior_update_history_def pattern_memory_size_def)
qed

section \<open>Behavioral histories\<close>

lemma analyze_all_snoc:
  "snd (analyze_all s (xs @ [x])) = snd (analyze None (fst x) (snd (analyze_all s xs)) (snd x))"
  by (induction xs arbitrary: s) (simp_all add: Let_def)


lemma analyze_sample_first:
  assumes "last_telemetry (preprocessor s) = None" and "b = ''ON'' \<or> b = ''OFF''"
  shows "last_telemetry (preprocessor (snd (analyze None now s (sample v f p b (stamp h wd u))))) =
           Some \<lparr> voltage = v, frequency = f, power_flow = p,
                  breaker_status = (if b = ''ON'' then ON else OFF),
                  timestamp = Naive \<lparr> dt_hour = h, dt_weekday = wd, dt_unix = u \<rparr>,
                  raw_breaker_changed = None \<rparr>
         \<and> switch_timestamps (behavior (snd (analyze None now s (sample v f p b (stamp h wd u))))) =
           filter (\<lambda>t. t > u - 3600) (switch_timestamps (behavior s))
         \<and> timestamp_history (behavior (snd (analyze None now s (sample v f p b (stamp h wd u))))) =
           append_bounded 50 (timestamp_history (behavior s)) u"
  using assms
  by (auto simp add: analyze_state_case preprocess_defs sample_def stamp_def Let_def
      behavior_update_history_def recent_switches_def get_breaker_changed_def
      pattern_memory_size_def)

lemma analyze_sample_next:
  assumes "last_telemetry (preprocessor s) = Some lst" and "timestamp lst = Naive t0"
    and "b = ''ON'' \<or> b = ''OFF''"
  shows "last_telemetry (preprocessor (snd (analyze None now s (sample v f p b (stamp h wd u))))) =
           Some \<lparr> voltage = v, frequency = f, power_flow = p,
                  breaker_status = (if b = ''ON'' then ON else OFF),
                  timestamp = Naive \<lparr> dt_hour = h, dt_weekday = wd, dt_unix = u \<rparr>,
                  raw_breaker_changed = None \<rparr>
         \<and> switch_timestamps (behavior (snd (analyze None now s (sample v f p b (stamp h wd u))))) =
           filter (\<lambda>t. t > u - 3600)
             (if (if b = ''ON'' then ON else OFF) \<noteq> breaker_status lst
              then switch_timestamps (behavior s) @ [u]
              else switch_timestamps (behavior s))
         \<and> timestamp_history (behavior (snd (analyze None now s (sample v f p b (stamp h wd u))))) =
           append_bounded 50 (timestamp_history (behavior s)) u"
  using assms
  by (auto simp add: analyze_state_case preprocess_defs sample_def stamp_def Let_def
      behavior_update_history_def recent_switches_def get_breaker_changed_def
      pattern_memory_size_def)

lemma append_bounded_length_min:
  "length xs = min k cap \<Longrightarrow> 0 < cap \<Longrightarrow> length (append_bounded cap xs x) = min (Suc k) cap"
  by (auto simp add: append_bounded_def Let_def min_def)

text \<open>
  The toggling samples on a fresh pipeline: every sample after the first changes the
  breaker, all of them lie within one hour, and the timestamp history stops growing at 50.
\<close>

lemma toggle_run:
  "n < 200 \<Longrightarrow>
   last_telemetry (preprocessor (snd (analyze_all new_pipeline (toggle_samples (Suc n))))) =
     Some \<lparr> voltage = 1, frequency = 50, power_flow = 0,
            breaker_status = (if even n then ON else OFF),
            timestamp = Naive \<lparr> dt_hour = 10, dt_weekday = 2, dt_unix = 1770199200 + 10 * real n \<rparr>,
            raw_breaker_changed = None \<rparr>
   \<and> switch_timestamps (behavior (snd (analyze_all new_pipeline (toggle_samples (Suc n))))) =
     map (\<lambda>i. 1770199200 + 10 * real i) [1..<Suc n]
   \<and> length (timestamp_history (behavior (snd (analyze_all new_pipeline (toggle_samples (Suc n))))))
       = min (Suc n) 50"
proof (induction n)
  case 0
  have n: "last_telemetry (preprocessor new_pipeline) = None"
    by (simp add: new_pipeline_def)
  have e: "switch_timestamps (behavior new_pipeline) = []"
    "timestamp_history (behavior new_pipeline) = []"
    by (simp_all add: new_pipeline_def)
  from analyze_sample_first [OF n, of "''ON''" clock_noon 1 50 0 10 2 1770199200] e
  show ?case by (simp add: Let_def toggle_samples_def append_bounded_def)
next
  case (Suc n)
  let ?g = "\<lambda>i. (clock_noon,
               sample 1 50 0 (if even i then ''ON'' else ''OFF'') (stamp 10 2 (1770199200 + 10 * real i)))"
  let ?s = "snd (analyze_all new_pipeline (toggle_samples (Suc n)))"
  let ?lst = "\<lparr> voltage = 1, frequency = 50, power_flow = 0,
            breaker_status = (if even n then ON else OFF),
            timestamp = Naive \<lparr> dt_hour = 10, dt_weekday = 2, dt_unix = 1770199200 + 10 * real n \<rparr>,
            raw_breaker_changed = None \<rparr>"
  from Suc have ih1: "last_telemetry (preprocessor ?s) = Some ?lst"
    and ih2: "switch_timestamps (behavior ?s) = map (\<lambda>i. 1770199200 + 10 * real i) [1..<Suc n]"
    and ih3: "length (timestamp_history (behavior ?s)) = min (Suc n) 50"
    by simp_all
  have ts: "timestamp ?lst = Naive \<lparr> dt_hour = 10, dt_weekday = 2, dt_unix = 1770199200 + 10 * real n \<rparr>"
    by simp
  have b: "(if even (Suc n) then ''ON'' else ''OFF'') = ''ON''
           \<or> (if even (Suc n) then ''ON'' else ''OFF'') = ''OFF''"
    by simp
  have unf: "snd (analyze_all new_pipeline (toggle_samples (Suc (Suc n))))
      = snd (analyze None clock_noon ?s
          (sample 1 50 0 (if even (Suc n) then ''ON'' else ''OFF'')
             (stamp 10 2 (1770199200 + 10 * real (Suc n)))))"
    using analyze_all_snoc [of new_pipeline "map ?g [0..<Suc n]" "?g (Suc n)"]
    by (simp add: toggle_samples_def)
  have keep: "filter (\<lambda>t. t > 1770199200 + 10 * real (Suc n) - 3600)
                (map (\<lambda>i. 1770199200 + 10 * real i) [1..<Suc n] @ [1770199200 + 10 * real (Suc n)])
              = map (\<lambda>i. 1770199200 + 10 * real i) [1..<Suc n] @ [1770199200 + 10 * real (Suc n)]"
    using Suc.prems by (intro filter_True) auto
  have len: "length (append_bounded 50 (timestamp_history (behavior ?s))
                (1770199200 + 10 * real (Suc n))) = min (Suc (Suc n)) 50"
    using append_bounded_length_min [OF ih3] by simp
  from analyze_sample_next [OF ih1 ts b, of clock_noon 1 50 0 10 2 "1770199200 + 10 * real (Suc n)"]
  show ?case
    unfolding unf using ih2 keep len by (auto simp add: Let_def)
qed

text \<open>
  Claim C6, as the code has it. The four checks of a call are scored on the histories as
  they were before the call: the score is the greatest fired check computed from the
  model before the update, and a sample whose time is not within the replay tolerance of
  a stored timestamp does not count as a replay of itself. After the checks the call
  appends one command entry (time, hour, breaker status, breaker flag of the sample) to
  the command history and the time to the timestamp history, each kept to at most 50
  entries by dropping the oldest one. The switch timestamps are extended only when the
  breaker changed, and are cut to the entries of the trailing hour, not to a capacity.
\<close>

theorem behavior_history_fifo:
  "score (fst (behavior_analyze b d)) =
     list_max (map fst (fired [check_replay_attack b d, check_off_hours_operation d,
                               fst (check_excessive_switching b d), check_rapid_commands d]))
   \<and> ((\<forall>t\<in>set (timestamp_history b). 0.1 \<le> \<bar>timestamp_unix d - t\<bar>)
        \<longrightarrow> fst (check_replay_attack b d) = 0)
   \<and> command_history (snd (behavior_analyze b d)) =
       (if length (command_history b) < 50
        then command_history b @
               [\<lparr> c_timestamp = timestamp_unix d, c_hour = hour d,
                   c_breaker_status = breaker_status d,
                   c_breaker_changed = get_breaker_changed d \<rparr>]
        else tl (command_history b @
               [\<lparr> c_timestamp = timestamp_unix d, c_hour = hour d,
                   c_breaker_status = breaker_status d,
                   c_breaker_changed = get_breaker_changed d \<rparr>]))
   \<and> timestamp_history (snd (behavior_analyze b d)) =
       (if length (timestamp_history b) < 50 then timestamp_history b @ [timestamp_unix d]
        else tl (timestamp_history b @ [timestamp_unix d]))
   \<and> (length (command_history b) \<le> 50 \<longrightarrow> length (command_history (snd (behavior_analyze b d))) \<le> 50)
   \<and> (length (timestamp_history b) \<le> 50 \<longrightarrow> length (timestamp_history (snd (behavior_analyze b d))) \<le> 50)
   \<and> switch_timestamps (snd (behavior_analyze b d)) =
       filter (\<lambda>t. t > timestamp_unix d - 3600)
         (if get_breaker_changed d then switch_timestamps b @ [timestamp_unix d]
          else switch_timestamps b)"
proof (intro conjI)
  show "score (fst (behavior_analyze b d)) =
     list_max (map fst (fired [check_replay_attack b d, check_off_hours_operation d,
                               fst (check_excessive_switching b d), check_rapid_commands d]))"
    by (simp add: behavior_analyze_def Let_def split_def)
next
  show "(\<forall>t\<in>set (timestamp_history b). 0.1 \<le> \<bar>timestamp_unix d - t\<bar>)
        \<longrightarrow> fst (check_replay_attack b d) = 0"
  proof
    assume far: "\<forall>t\<in>set (timestamp_history b). 0.1 \<le> \<bar>timestamp_unix d - t\<bar>"
    have "\<not> list_ex (\<lambda>past_timestamp. \<bar>timestamp_unix d - past_timestamp\<bar> < replay_time_tolerance)
             (timestamp_history b)"
    proof
      assume "list_ex (\<lambda>past_timestamp. \<bar>timestamp_unix d - past_timestamp\<bar> < replay_time_tolerance)
                (timestamp_history b)"
      then obtain t where t: "t \<in> set (timestamp_history b)"
        and near: "\<bar>timestamp_unix d - t\<bar> < 0.1"
        unfolding list_ex_iff replay_time_tolerance_def by blast
      from far t have "0.1 \<le> \<bar>timestamp_unix d - t\<bar>" by blast
      with near show False by linarith
    qed
    then show "fst (check_replay_attack b d) = 0"
      by (simp add: check_replay_attack_def)
  qed
qed (simp_all add: behavior_analyze_state behavior_update_history_def append_bounded_eq
        pattern_memory_size_def recent_switches_def)

theorem behavior_history_fifo_witness:
  "length (command_history full_behavior) = 50
   \<and> length (timestamp_history full_behavior) = 50
   \<and> fst (check_replay_attack full_behavior
        (fst (projr (preprocess clock_noon (preprocessor new_pipeline)
                (sample 1 50 0 ''ON'' (stamp 10 2 1770199200)))))) = 0
   \<and> length (command_history (snd (behavior_analyze full_behavior
        (fst (projr (preprocess clock_noon (preprocessor new_pipeline)
                (sample 1 50 0 ''ON'' (stamp 10 2 1770199200)))))))) \<le> 50
   \<and> length (timestamp_history (snd (behavior_analyze full_behavior
        (fst (projr (preprocess clock_noon (preprocessor new_pipeline)
                (sample 1 50 0 ''ON'' (stamp 10 2 1770199200)))))))) \<le> 50
   \<and> hd (timestamp_history (snd (behavior_analyze full_behavior
        (fst (projr (preprocess clock_noon (preprocessor new_pipeline)
                (sample 1 50 0 ''ON'' (stamp 10 2 1770199200)))))))) = 1770190001
   \<and> last (timestamp_history (snd (behavior_analyze full_behavior
        (fst (projr (preprocess clock_noon (preprocessor new_pipeline)
                (sample 1 50 0 ''ON'' (stamp 10 2 1770199200)))))))) = 1770199200"
proof -
  define d where "d = fst (projr (preprocess clock_noon (preprocessor new_pipeline)
                (sample 1 50 0 ''ON'' (stamp 10 2 1770199200))))"
  have u: "timestamp_unix d = 1770199200"
    by (simp add: d_def preprocess_defs scenario_defs Let_def)
  have l: "length (command_history full_behavior) = 50"
    "length (timestamp_history full_behavior) = 50"
    by (simp_all add: full_behavior_def)
  have far: "\<forall>t\<in>set (timestamp_history full_behavior). 0.1 \<le> \<bar>timestamp_unix d - t\<bar>"
    by (auto simp add: full_behavior_def u)
  have th: "timestamp_history full_behavior = 1770190000 # map (\<lambda>i. 1770190000 + real i) [1..<50]"
    by (simp add: full_behavior_def upt_conv_Cons del: upt_Suc)
  have h: "hd (tl (timestamp_history full_behavior @ [timestamp_unix d])) = 1770190001"
    unfolding th by (simp add: upt_conv_Cons del: upt_Suc)
  have la: "last (tl (timestamp_history full_behavior @ [timestamp_unix d])) = timestamp_unix d"
    unfolding th by simp
  from behavior_history_fifo [of full_behavior d] l far h la u
  show ?thesis unfolding d_def [symmetric] by simp
qed

text \<open>
  Claim C6 as stated fails for the third list. After the first sample of a fresh pipeline
  the timestamp history holds the sample's time and the switch timestamps are still
  empty; and after 61 samples ten seconds apart whose breaker alternates, the switch
  timestamps hold 60 entries while the timestamp history holds 50.
\<close>

theorem switch_timestamps_not_appended:
  "timestamp_history (behavior (snd (analyze None clock_noon new_pipeline
       (sample 1 50 0 ''ON'' (stamp 10 2 1770199200))))) = [1770199200]
   \<and> switch_timestamps (behavior (snd (analyze None clock_noon new_pipeline
       (sample 1 50 0 ''ON'' (stamp 10 2 1770199200))))) = []
   \<and> length (switch_timestamps (behavior (snd (analyze_all new_pipeline (toggle_samples 61))))) = 60
   \<and> length (timestamp_history (behavior (snd (analyze_all new_pipeline (toggle_samples 61))))) = 50"
proof -
  have a: "timestamp_history (behavior (snd (analyze None clock_noon new_pipeline
       (sample 1 50 0 ''ON'' (stamp 10 2 1770199200))))) = [1770199200]
   \<and> switch_timestamps (behavior (snd (analyze None clock_noon new_pipeline
       (sample 1 50 0 ''ON'' (stamp 10 2 1770199200))))) = []"
    by (simp add: analyze_state_case preprocess_defs scenario_defs Let_def
      behavior_update_history_def pattern_memory_size_def recent_switches_def
      get_breaker_changed_def)
  have "(60::nat) < 200" by simp
  from toggle_run [OF this] have
    "length (switch_timestamps (behavior (snd (analyze_all new_pipeline (toggle_samples 61))))) = 60
     \<and> length (timestamp_history (behavior (snd (analyze_all new_pipeline (toggle_samples 61))))) = 50"
    by (simp del: upt_Suc)
  with a show ?thesis by simp
qed

section \<open>Fusion weights\<close>

text \<open>
  Claim C4 at the failing input: \<open>update_weights\<close> accepts the one-key dictionary
  \<^verbatim>\<open>{'anomaly': 1.0}\<close>, whose values sum to 1.0, merges it into the stored weights, and
  the stored weights then sum to 1.85.
\<close>

theorem update_weights_partial_accepted:
  "weights_sum FUSION_WEIGHTS = 1
   \<and> update_weights FUSION_WEIGHTS [(''anomaly'', 1)] =
       Inr [(''anomaly'', 1), (''fdia'', 0.35), (''physics'', 0.25), (''behavior'', 0.10),
            (''memory'', 0.15)]
   \<and> weights_sum [(''anomaly'', 1), (''fdia'', 0.35), (''physics'', 0.25), (''behavior'', 0.10),
            (''memory'', 0.15)] = 1.85"
  by (simp add: update_weights_def weights_sum_def FUSION_WEIGHTS_def)

section \<open>Reset\<close>

lemma behavior_score_no_flag:
  assumes "breaker_changed d = None" and "timestamp_history b = []"
  shows "score (fst (behavior_analyze b d)) =
     (if length (filter (\<lambda>t. t > timestamp_unix d - 3600) (switch_timestamps b)) > 10
      then min 1 (real (length (filter (\<lambda>t. t > timestamp_unix d - 3600) (switch_timestamps b))) / 20)
      else 0)"
  using assms
  by (simp add: behavior_analyze_def check_replay_attack_def check_off_hours_operation_def
      check_excessive_switching_def recent_switches_def check_rapid_commands_def
      get_breaker_changed_def fired_def max_switches_per_hour_def Let_def split_def)

lemma preprocess_sample_first:
  assumes "last_telemetry pre = None" and "b = ''ON'' \<or> b = ''OFF''"
  shows "\<exists>r. preprocess now pre (sample v f p b (stamp h wd u)) = Inr r
             \<and> breaker_changed (fst r) = None \<and> timestamp_unix (fst r) = u"
  using assms
  by (auto simp add: preprocess_defs sample_def stamp_def Let_def)

text \<open>
  Claim C5 at the failing input: \<open>reset\<close> leaves the switch timestamps of the behavior
  model in place. After the twelve toggling samples and a reset, the first sample of a
  new sequence scores 0.55 in the behavior model (eleven switches in the trailing hour);
  on a fresh pipeline the same sample scores 0.
\<close>

theorem reset_keeps_switch_timestamps:
  "map_of (out_model_outputs (hd (fst (analyze_all
       (reset (snd (analyze_all new_pipeline toggle_sequence)))
       [(clock_noon, sample 1 50 0 ''ON'' (stamp 10 2 1770199400))])))) ''behavior'' = Some 0.55
   \<and> map_of (out_model_outputs (hd (fst (analyze_all new_pipeline
       [(clock_noon, sample 1 50 0 ''ON'' (stamp 10 2 1770199400))])))) ''behavior'' = Some 0"
proof
  let ?used = "snd (analyze_all new_pipeline toggle_sequence)"
  let ?x = "sample 1 50 0 ''ON'' (stamp 10 2 1770199400)"
  have sw: "switch_timestamps (behavior ?used) = map (\<lambda>i. 1770199200 + 10 * real i) [1..<12]"
    using toggle_run [of 11] by (simp add: toggle_sequence_def)
  have r1: "last_telemetry (preprocessor (reset ?used)) = None"
    by (simp add: reset_def preprocessor_reset_def)
  have r2: "timestamp_history (behavior (reset ?used)) = []"
    by (simp add: reset_def)
  have r3: "switch_timestamps (behavior (reset ?used)) = map (\<lambda>i. 1770199200 + 10 * real i) [1..<12]"
    using sw by (simp add: reset_def)
  from preprocess_sample_first [OF r1, of "''ON''" clock_noon 1 50 0 10 2 1770199400]
  obtain r where p: "preprocess clock_noon (preprocessor (reset ?used)) ?x = Inr r"
    and bc: "breaker_changed (fst r) = None" and tu: "timestamp_unix (fst r) = 1770199400"
    by auto
  have keep: "filter (\<lambda>t. t > 1770199400 - 3600) (map (\<lambda>i. 1770199200 + 10 * real i) [1..<12])
      = map (\<lambda>i. 1770199200 + 10 * real i) [1..<12]"
    by (intro filter_True) auto
  have "score (fst (behavior_analyze (behavior (reset ?used)) (fst r))) = 0.55"
    using behavior_score_no_flag [OF bc r2] r3 tu keep by simp
  with analyze_behavior_score [OF p]
  show "map_of (out_model_outputs (hd (fst (analyze_all (reset ?used) [(clock_noon, ?x)]))))
          ''behavior'' = Some 0.55"
    by (simp add: Let_def)
next
  let ?x = "sample 1 50 0 ''ON'' (stamp 10 2 1770199400)"
  have n1: "last_telemetry (preprocessor new_pipeline) = None"
    by (simp add: new_pipeline_def)
  have n2: "timestamp_history (behavior new_pipeline) = []"
    by (simp add: new_pipeline_def)
  have n3: "switch_timestamps (behavior new_pipeline) = []"
    by (simp add: new_pipeline_def)
  from preprocess_sample_first [OF n1, of "''ON''" clock_noon 1 50 0 10 2 1770199400]
  obtain r where p: "preprocess clock_noon (preprocessor new_pipeline) ?x = Inr r"
    and bc: "breaker_changed (fst r) = None"
    by auto
  have "score (fst (behavior_analyze (behavior new_pipeline) (fst r))) = 0"
    using behavior_score_no_flag [OF bc n2] n3 by simp
  with analyze_behavior_score [OF p]
  show "map_of (out_model_outputs (hd (fst (analyze_all new_pipeline [(clock_noon, ?x)]))))
          ''behavior'' = Some 0"
    by (simp add: Let_def)
qed

section \<open>Scores and confidences lie in the unit interval\<close>

text \<open>
  Over the reals the cosine similarity is at most 1 (Cauchy-Schwarz on the zipped
  vectors). The bounds of this section are bounds of the exact values. Every other score
  of the code is a constant, a value clamped by \<^verbatim>\<open>min(1.0, ...)\<close>, the complement of a
  quotient below 1, or a maximum or an average of such values; the similarity to an attack
  signature is returned as computed, so its bound 1 is the one float rounding can break.
\<close>

lemma cauchy_schwarz_step:
  fixes A B D x y :: real
  assumes "D * D \<le> A * B" and "0 \<le> A" and "0 \<le> B"
  shows "(D + x * y) * (D + x * y) \<le> (A + x * x) * (B + y * y)"
proof -
  have "(2 * D * x * y)\<^sup>2 = 4 * (D * D) * ((x * x) * (y * y))"
    by algebra
  also have "\<dots> \<le> 4 * (A * B) * ((x * x) * (y * y))"
    using assms(1) by (intro mult_right_mono mult_left_mono) auto
  also have "\<dots> \<le> (A * (y * y) + B * (x * x))\<^sup>2"
  proof -
    have "(A * (y * y) + B * (x * x))\<^sup>2 - 4 * (A * B) * ((x * x) * (y * y))
          = (A * (y * y) - B * (x * x))\<^sup>2"
      by algebra
    moreover have "0 \<le> (A * (y * y) - B * (x * x))\<^sup>2" by simp
    ultimately show ?thesis by linarith
  qed
  finally have "(2 * D * x * y)\<^sup>2 \<le> (A * (y * y) + B * (x * x))\<^sup>2" .
  moreover have "0 \<le> A * (y * y) + B * (x * x)"
    using assms(2,3) by simp
  ultimately have m: "2 * D * x * y \<le> A * (y * y) + B * (x * x)"
    by (rule power2_le_imp_le)
  have l: "(D + x * y) * (D + x * y) = D * D + 2 * D * x * y + (x * x) * (y * y)"
    by algebra
  have r: "(A + x * x) * (B + y * y)
      = A * B + (A * (y * y) + B * (x * x)) + (x * x) * (y * y)"
    by algebra
  have "D * D + 2 * D * x * y + (x * x) * (y * y)
      \<le> A * B + (A * (y * y) + B * (x * x)) + (x * x) * (y * y)"
    by (intro add_mono order_refl assms(1) m)
  then show ?thesis by (simp only: l r)
qed

lemma sum_squares_nonneg: "0 \<le> sum_list (map (\<lambda>a::real. a * a) xs)"
  by (induction xs) simp_all

lemma cauchy_schwarz_lists:
  "length xs = length ys \<Longrightarrow>
   sum_list (map (\<lambda>p. fst p * snd p) (zip xs ys)) * sum_list (map (\<lambda>p. fst p * snd p) (zip xs ys))
     \<le> sum_list (map (\<lambda>a::real. a * a) xs) * sum_list (map (\<lambda>b. b * b) ys)"
proof (induction xs ys rule: list_induct2)
  case Nil
  show ?case by simp
next
  case (Cons x xs y ys)
  have "(sum_list (map (\<lambda>p. fst p * snd p) (zip xs ys)) + x * y)
        * (sum_list (map (\<lambda>p. fst p * snd p) (zip xs ys)) + x * y)
      \<le> (sum_list (map (\<lambda>a. a * a) xs) + x * x) * (sum_list (map (\<lambda>b. b * b) ys) + y * y)"
    by (rule cauchy_schwarz_step [OF Cons.IH sum_squares_nonneg sum_squares_nonneg])
  then show ?case by (simp add: add.commute)
qed

lemma cosine_similarity_unfold:
  "length a = length b \<Longrightarrow>
   cosine_similarity a b =
     (if sqrt (sum_list (map (\<lambda>x. x * x) a)) = 0 \<or> sqrt (sum_list (map (\<lambda>x. x * x) b)) = 0
      then 0
      else sum_list (map (\<lambda>p. fst p * snd p) (zip a b))
           / (sqrt (sum_list (map (\<lambda>x. x * x) a)) * sqrt (sum_list (map (\<lambda>x. x * x) b))))"
  unfolding cosine_similarity_def Let_def by simp

lemma cosine_similarity_le_one: "cosine_similarity a b \<le> 1"
proof (cases "length a = length b")
  case False
  then show ?thesis unfolding cosine_similarity_def by simp
next
  case True
  define D where "D = sum_list (map (\<lambda>p. fst p * snd p) (zip a b))"
  define A where "A = sum_list (map (\<lambda>x. x * x) a)"
  define B where "B = sum_list (map (\<lambda>x. x * x) b)"
  have cs: "D * D \<le> A * B"
    unfolding D_def A_def B_def by (rule cauchy_schwarz_lists [OF True])
  have A0: "0 \<le> A" and B0: "0 \<le> B"
    unfolding A_def B_def by (rule sum_squares_nonneg)+
  have eq: "cosine_similarity a b = (if sqrt A = 0 \<or> sqrt B = 0 then 0 else D / (sqrt A * sqrt B))"
    unfolding D_def A_def B_def by (rule cosine_similarity_unfold [OF True])
  show ?thesis
  proof (cases "sqrt A = 0 \<or> sqrt B = 0")
    case True
    then have "cosine_similarity a b = 0" unfolding eq by simp
    then show ?thesis by simp
  next
    case False
    then have "sqrt A \<noteq> 0" and "sqrt B \<noteq> 0" by blast+
    moreover have "0 \<le> sqrt A" and "0 \<le> sqrt B" using A0 B0 by simp_all
    ultimately have "0 < sqrt A" and "0 < sqrt B" by linarith+
    then have pos: "0 < sqrt A * sqrt B" by (rule mult_pos_pos)
    have "(sqrt A * sqrt B)\<^sup>2 = A * B"
      using A0 B0 by (simp add: power_mult_distrib)
    then have sq: "D\<^sup>2 \<le> (sqrt A * sqrt B)\<^sup>2"
      using cs by (simp add: power2_eq_square)
    have "D \<le> sqrt A * sqrt B"
      by (rule power2_le_imp_le [OF sq less_imp_le [OF pos]])
    then have "D / (sqrt A * sqrt B) \<le> 1"
      using pos by (simp add: divide_le_eq_1_pos)
    moreover from False have "cosine_similarity a b = D / (sqrt A * sqrt B)"
      unfolding eq by simp
    ultimately show ?thesis by simp
  qed
qed

lemma list_max_bounds:
  "xs \<noteq> [] \<Longrightarrow> \<forall>x\<in>set xs. lo \<le> x \<and> x \<le> hi \<Longrightarrow> lo \<le> list_max xs \<and> list_max xs \<le> hi"
  by (induction xs rule: list_max.induct) auto

lemma sum_list_unit_bounds:
  "\<forall>x\<in>set xs. 0 \<le> x \<and> x \<le> (1::real) \<Longrightarrow> 0 \<le> sum_list xs \<and> sum_list xs \<le> real (length xs)"
  by (induction xs) auto

lemma fired_max_bounds:
  assumes "\<forall>c\<in>set cs. 0 \<le> fst c \<and> fst c \<le> 1" and "fired cs \<noteq> []"
  shows "0 \<le> list_max (map fst (fired cs)) \<and> list_max (map fst (fired cs)) \<le> 1"
proof (rule list_max_bounds)
  show "map fst (fired cs) \<noteq> []" using assms(2) by simp
  show "\<forall>x\<in>set (map fst (fired cs)). 0 \<le> x \<and> x \<le> 1"
    using assms(1) by (auto simp add: fired_def)
qed

lemma evaluate_anomaly_bounds:
  "fst (evaluate_anomaly f z dv) \<Longrightarrow>
   0 \<le> fst (snd (evaluate_anomaly f z dv)) \<and> fst (snd (evaluate_anomaly f z dv)) \<le> 1"
  by (auto simp add: evaluate_anomaly_def z_score_threshold_def deviation_threshold_def
      split: if_splits)

lemma anomaly_analyze_bounds:
  "0 \<le> score (anomaly_analyze d st) \<and> score (anomaly_analyze d st) \<le> 1
   \<and> 0 \<le> confidence (anomaly_analyze d st) \<and> confidence (anomaly_analyze d st) \<le> 1"
proof -
  obtain sv sf sp where st: "st = (sv, sf, sp)" by (cases st) auto
  define anomalies where "anomalies = filter fst
            [anomaly_field ''Voltage'' (voltage d) sv,
             anomaly_field ''Frequency'' (frequency d) sf,
             anomaly_field ''Power_flow'' (power_flow d) sp]"
  have b: "\<forall>x\<in>set (map (\<lambda>a. fst (snd a)) anomalies). 0 \<le> x \<and> x \<le> 1"
    unfolding anomalies_def anomaly_field_def
    using evaluate_anomaly_bounds by auto
  have eq: "anomaly_analyze d st =
     (if map (\<lambda>a. fst (snd a)) anomalies = []
         then \<lparr> score = 0, confidence = 0.95,
                reason = Reason ''All parameters within normal statistical range'' [] \<rparr>
         else \<lparr> score = list_max (map (\<lambda>a. fst (snd a)) anomalies),
                confidence = min 0.95 (0.6 + real (length (map (\<lambda>a. fst (snd a)) anomalies)) * 0.15),
                reason = (if length (map (\<lambda>a. snd (snd a)) anomalies) > 1
                          then add_suffix (hd (map (\<lambda>a. snd (snd a)) anomalies)) '' ({} anomalies total)''
                                 (length (map (\<lambda>a. snd (snd a)) anomalies))
                          else hd (map (\<lambda>a. snd (snd a)) anomalies)) \<rparr>)"
    unfolding anomaly_analyze_def st anomalies_def Let_def by simp
  show ?thesis
  proof (cases "map (\<lambda>a. fst (snd a)) anomalies = []")
    case True
    then show ?thesis unfolding eq by simp
  next
    case False
    from list_max_bounds [OF False b] False show ?thesis unfolding eq by simp
  qed
qed


lemma compute_correlation_nonneg: "0 \<le> compute_correlation x y"
  unfolding compute_correlation_def Let_def by simp

lemma check_correlation_mismatch_bounds:
  "0 \<le> fst (check_correlation_mismatch h) \<and> fst (check_correlation_mismatch h) \<le> 1"
proof -
  define c where "c = compute_correlation (map h_voltage (last_n temporal_window h))
                             (map h_frequency (last_n temporal_window h))"
  have c0: "0 \<le> c" unfolding c_def by (rule compute_correlation_nonneg)
  have "fst (check_correlation_mismatch h) =
      (if length h < 5 then 0 else if c < 0.3 then 1 - c / 0.3 else 0)"
    unfolding check_correlation_mismatch_def Let_def c_def correlation_threshold_def by simp
  with c0 show ?thesis by (auto simp add: field_simps)
qed

lemma check_temporal_consistency_bounds:
  "0 \<le> fst (check_temporal_consistency d) \<and> fst (check_temporal_consistency d) \<le> 1"
  unfolding check_temporal_consistency_def by simp

lemma check_multi_signal_coordination_bounds:
  "0 \<le> fst (check_multi_signal_coordination h d) \<and> fst (check_multi_signal_coordination h d) \<le> 1"
  unfolding check_multi_signal_coordination_def Let_def by simp

lemma fdia_analyze_bounds:
  "0 \<le> score (fst (fdia_analyze h d th)) \<and> score (fst (fdia_analyze h d th)) \<le> 1
   \<and> 0 \<le> confidence (fst (fdia_analyze h d th)) \<and> confidence (fst (fdia_analyze h d th)) \<le> 1"
proof -
  define ind where "ind = fired
            [check_correlation_mismatch th,
             check_temporal_consistency d,
             check_multi_signal_coordination (fdia_update_history h d) d]"
  have b: "\<forall>x\<in>set (map fst ind). 0 \<le> x \<and> x \<le> 1"
    unfolding ind_def fired_def
    using check_correlation_mismatch_bounds [of th] check_temporal_consistency_bounds [of d]
      check_multi_signal_coordination_bounds [of "fdia_update_history h d" d]
    by auto
  have eq: "fst (fdia_analyze h d th) =
     (if map fst ind = []
          then \<lparr> score = 0, confidence = 0.85, reason = Reason ''No FDIA indicators detected'' [] \<rparr>
          else \<lparr> score = sum_list (map fst ind) / real (length (map fst ind)),
                 confidence = min 0.95 (0.7 + real (length ind) * 0.1),
                 reason = (if length ind = 1 then snd (hd ind)
                           else Reason ''Coordinated false data injection detected'' []) \<rparr>)"
    unfolding fdia_analyze_def Let_def ind_def by simp
  show ?thesis
  proof (cases "map fst ind = []")
    case True
    then show ?thesis unfolding eq by simp
  next
    case False
    then have len: "0 < real (length (map fst ind))" by simp
    from sum_list_unit_bounds [OF b]
    have "0 \<le> sum_list (map fst ind) / real (length (map fst ind))
        \<and> sum_list (map fst ind) / real (length (map fst ind)) \<le> 1"
      using len by (simp add: divide_le_eq_1_pos)
    with False show ?thesis unfolding eq by simp
  qed
qed

lemma physics_analyze_bounds:
  "0 \<le> score (physics_analyze d) \<and> score (physics_analyze d) \<le> 1
   \<and> 0 \<le> confidence (physics_analyze d) \<and> confidence (physics_analyze d) \<le> 1"
proof -
  define cs where "cs =
            [check_breaker_power_consistency d,
             check_voltage_bounds d,
             check_frequency_bounds d,
             check_power_voltage_causality d,
             check_physical_impossibilities d]"
  have c1: "0 \<le> fst (check_breaker_power_consistency d) \<and> fst (check_breaker_power_consistency d) \<le> 1"
    unfolding check_breaker_power_consistency_def by simp
  have c2: "0 \<le> fst (check_voltage_bounds d) \<and> fst (check_voltage_bounds d) \<le> 1"
    unfolding check_voltage_bounds_def voltage_min_def voltage_max_def by simp
  have c3: "0 \<le> fst (check_frequency_bounds d) \<and> fst (check_frequency_bounds d) \<le> 1"
    unfolding check_frequency_bounds_def frequency_min_def frequency_max_def by simp
  have c4: "0 \<le> fst (check_power_voltage_causality d) \<and> fst (check_power_voltage_causality d) \<le> 1"
    unfolding check_power_voltage_causality_def Let_def by simp
  have c5: "0 \<le> fst (check_physical_impossibilities d) \<and> fst (check_physical_impossibilities d) \<le> 1"
    unfolding check_physical_impossibilities_def by simp
  have b: "\<forall>c\<in>set cs. 0 \<le> fst c \<and> fst c \<le> 1"
    unfolding cs_def using c1 c2 c3 c4 c5 by simp
  have eq: "score (physics_analyze d) = (if fired cs = [] then 0 else list_max (map fst (fired cs)))"
    and cf: "confidence (physics_analyze d) = (if fired cs = [] then 0.98 else 0.95)"
    unfolding physics_analyze_def Let_def cs_def by simp_all
  show ?thesis
  proof (cases "fired cs = []")
    case True
    then show ?thesis unfolding eq cf by simp
  next
    case False
    from fired_max_bounds [OF b False] False show ?thesis unfolding eq cf by simp
  qed
qed


lemma behavior_analyze_bounds:
  "0 \<le> score (fst (behavior_analyze b d)) \<and> score (fst (behavior_analyze b d)) \<le> 1
   \<and> 0 \<le> confidence (fst (behavior_analyze b d)) \<and> confidence (fst (behavior_analyze b d)) \<le> 1"
proof -
  define cs where "cs =
     [check_replay_attack b d, check_off_hours_operation d,
      fst (check_excessive_switching b d), check_rapid_commands d]"
  have c1: "0 \<le> fst (check_replay_attack b d) \<and> fst (check_replay_attack b d) \<le> 1"
    unfolding check_replay_attack_def by simp
  have c2: "0 \<le> fst (check_off_hours_operation d) \<and> fst (check_off_hours_operation d) \<le> 1"
    unfolding check_off_hours_operation_def by simp
  have c3: "0 \<le> fst (fst (check_excessive_switching b d))
            \<and> fst (fst (check_excessive_switching b d)) \<le> 1"
    unfolding check_excessive_switching_def Let_def by simp
  have c4: "0 \<le> fst (check_rapid_commands d) \<and> fst (check_rapid_commands d) \<le> 1"
    unfolding check_rapid_commands_def by simp
  have b: "\<forall>c\<in>set cs. 0 \<le> fst c \<and> fst c \<le> 1"
    unfolding cs_def using c1 c2 c3 c4 by simp
  have eq: "score (fst (behavior_analyze b d)) = (if fired cs = [] then 0 else list_max (map fst (fired cs)))"
    and cf: "confidence (fst (behavior_analyze b d)) =
               (if fired cs = [] then 0.75 else min 0.90 (0.65 + real (length (fired cs)) * 0.1))"
    unfolding behavior_analyze_def Let_def cs_def split_def by simp_all
  show ?thesis
  proof (cases "fired cs = []")
    case True
    then show ?thesis unfolding eq cf by simp
  next
    case False
    from fired_max_bounds [OF b False] False show ?thesis unfolding eq cf by simp
  qed
qed

lemma check_attack_signatures_bounds:
  "0 \<le> fst (check_attack_signatures sigs v) \<and> fst (check_attack_signatures sigs v) \<le> 1"
proof (induction sigs)
  case Nil
  show ?case by simp
next
  case (Cons sg rest)
  show ?case
  proof (cases "cosine_similarity v (sig_vector sg) > similarity_threshold")
    case True
    then have "fst (check_attack_signatures (sg # rest) v) = cosine_similarity v (sig_vector sg)"
      by (simp add: Let_def)
    moreover have "0 \<le> cosine_similarity v (sig_vector sg)"
      using True unfolding similarity_threshold_def by simp
    ultimately show ?thesis using cosine_similarity_le_one [of v "sig_vector sg"] by simp
  next
    case False
    then have "check_attack_signatures (sg # rest) v = check_attack_signatures rest v"
      by (simp add: Let_def)
    with Cons.IH show ?thesis by simp
  qed
qed

lemma memory_analyze_bounds:
  "0 \<le> score (fst (memory_analyze m d th)) \<and> score (fst (memory_analyze m d th)) \<le> 1
   \<and> 0 \<le> confidence (fst (memory_analyze m d th)) \<and> confidence (fst (memory_analyze m d th)) \<le> 1"
proof -
  define v where "v = create_feature_vector (voltage d) (frequency d) (power_flow d)"
  define mem1 where "mem1 = update_memory (telemetry_memory m) d"
  define cs where "cs =
     [check_attack_signatures (attack_signatures m) v,
      check_pattern_repetition v th,
      check_baseline_deviation mem1 v]"
  have c2: "0 \<le> fst (check_pattern_repetition v th) \<and> fst (check_pattern_repetition v th) \<le> 1"
    unfolding check_pattern_repetition_def Let_def by simp
  have c3: "0 \<le> fst (check_baseline_deviation mem1 v) \<and> fst (check_baseline_deviation mem1 v) \<le> 1"
    unfolding check_baseline_deviation_def Let_def by simp
  have b: "\<forall>c\<in>set cs. 0 \<le> fst c \<and> fst c \<le> 1"
    unfolding cs_def using check_attack_signatures_bounds [of "attack_signatures m" v] c2 c3 by simp
  have eq: "score (fst (memory_analyze m d th)) = (if fired cs = [] then 0 else list_max (map fst (fired cs)))"
    and cf: "confidence (fst (memory_analyze m d th)) =
               (if fired cs = [] then 0.80 else min 0.95 (0.70 + real (length mem1) / 100 * 0.2))"
    unfolding memory_analyze_def Let_def cs_def v_def mem1_def by simp_all
  show ?thesis
  proof (cases "fired cs = []")
    case True
    then show ?thesis unfolding eq cf by simp
  next
    case False
    from fired_max_bounds [OF b False] False show ?thesis unfolding eq cf by simp
  qed
qed

lemma py_round_of_int: "py_round (of_int k) = k"
  unfolding py_round_def Let_def by simp

lemma py_round_ge_floor: "\<lfloor>y\<rfloor> \<le> py_round y"
  unfolding py_round_def Let_def by simp

lemma py_round_le_floor: "py_round y \<le> \<lfloor>y\<rfloor> + 1"
  unfolding py_round_def Let_def by simp

lemma py_round_mono:
  assumes "x \<le> y"
  shows "py_round x \<le> py_round y"
proof (cases "\<lfloor>x\<rfloor> = \<lfloor>y\<rfloor>")
  case True
  with assms show ?thesis unfolding py_round_def Let_def by auto
next
  case False
  moreover have "\<lfloor>x\<rfloor> \<le> \<lfloor>y\<rfloor>" using assms by (rule floor_mono)
  ultimately have "\<lfloor>x\<rfloor> + 1 \<le> \<lfloor>y\<rfloor>" by simp
  with py_round_le_floor [of x] py_round_ge_floor [of y] show ?thesis by linarith
qed

lemma py_round3_mono: "x \<le> y \<Longrightarrow> py_round3 x \<le> py_round3 y"
  unfolding py_round3_def using py_round_mono [of "x * 1000" "y * 1000"]
  by (simp add: divide_right_mono)

lemma py_round3_milli: "py_round3 (of_int k / 1000) = of_int k / 1000"
  unfolding py_round3_def using py_round_of_int [of k] by simp

lemma py_round3_bounds:
  assumes "0 \<le> x" and "x \<le> 1"
  shows "0 \<le> py_round3 x \<and> py_round3 x \<le> 1"
proof -
  have "py_round3 0 \<le> py_round3 x" using assms(1) by (rule py_round3_mono)
  moreover have "py_round3 x \<le> py_round3 1" using assms(2) by (rule py_round3_mono)
  moreover have "py_round3 0 = 0" using py_round3_milli [of 0] by simp
  moreover have "py_round3 1 = 1" using py_round3_milli [of 1000] by simp
  ultimately show ?thesis by simp
qed


lemma analyze_output:
  assumes "preprocess now (preprocessor s) x = Inr r"
  shows "fst (analyze None now s x) =
     prepare_output (fst (execute_models (fst r) (s\<lparr>preprocessor := snd r\<rparr>)))
       (fuse (fusion_weights s) (fst (execute_models (fst r) (s\<lparr>preprocessor := snd r\<rparr>))))
       (fst r) (analysis_count s)"
  using assms by (simp add: analyze_def Let_def execute_models_def)

lemma execute_models_bounds:
  "(\<forall>m\<in>{mo_anomaly (fst (execute_models d s)), mo_fdia (fst (execute_models d s)),
          mo_physics (fst (execute_models d s)), mo_behavior (fst (execute_models d s)),
          mo_memory (fst (execute_models d s))}.
      0 \<le> score m \<and> score m \<le> 1 \<and> 0 \<le> confidence m \<and> confidence m \<le> 1)"
  unfolding execute_models_def Let_def
  using anomaly_analyze_bounds fdia_analyze_bounds physics_analyze_bounds
    behavior_analyze_bounds memory_analyze_bounds
  by simp

lemma get_decision_round:
  "(py_round3 risk < 0.30 \<longrightarrow> get_decision risk = SAFE)
   \<and> (0.30 < py_round3 risk \<and> py_round3 risk < 0.60 \<longrightarrow> get_decision risk = WARNING)
   \<and> (0.60 < py_round3 risk \<longrightarrow> get_decision risk = CRITICAL)
   \<and> (get_decision risk = SAFE \<longrightarrow> py_round3 risk \<le> 0.30)
   \<and> (get_decision risk = WARNING \<longrightarrow> 0.30 \<le> py_round3 risk \<and> py_round3 risk \<le> 0.60)
   \<and> (get_decision risk = CRITICAL \<longrightarrow> 0.60 \<le> py_round3 risk)"
proof -
  have a: "py_round3 0.30 = 0.30" using py_round3_milli [of 300] by simp
  have b: "py_round3 0.60 = 0.60" using py_round3_milli [of 600] by simp
  have l3: "risk < 0.30 \<Longrightarrow> py_round3 risk \<le> 0.30"
    using py_round3_mono [of risk "0.30"] a by simp
  have g3: "0.30 \<le> risk \<Longrightarrow> 0.30 \<le> py_round3 risk"
    using py_round3_mono [of "0.30" risk] a by simp
  have l6: "risk < 0.60 \<Longrightarrow> py_round3 risk \<le> 0.60"
    using py_round3_mono [of risk "0.60"] b by simp
  have g6: "0.60 \<le> risk \<Longrightarrow> 0.60 \<le> py_round3 risk"
    using py_round3_mono [of "0.60" risk] b by simp
  consider "risk < 0.30" | "0.30 \<le> risk" "risk < 0.60" | "0.60 \<le> risk" by linarith
  then show ?thesis
  proof cases
    case 1
    then have "get_decision risk = SAFE"
      by (simp add: get_decision_def safe_threshold_def)
    with l3 [OF 1] show ?thesis by simp
  next
    case 2
    then have "get_decision risk = WARNING"
      by (simp add: get_decision_def safe_threshold_def warning_threshold_def)
    with g3 [OF 2(1)] l6 [OF 2(2)] show ?thesis by simp
  next
    case 3
    then have "get_decision risk = CRITICAL"
      by (simp add: get_decision_def safe_threshold_def warning_threshold_def)
    with g6 [OF 3] show ?thesis by simp
  qed
qed

section \<open>Evaluating one call with the default weights\<close>

lemmas model_state_defs =
  behavior_update_history_def recent_switches_def get_breaker_changed_def
  pattern_memory_size_def fdia_update_history_def update_memory_def

lemma cosine_similarity_nonpos:
  assumes "sum_list (map (\<lambda>p. fst p * snd p) (zip a b)) \<le> 0"
  shows "cosine_similarity a b \<le> 0"
proof (cases "length a = length b")
  case False
  then show ?thesis unfolding cosine_similarity_def by simp
next
  case True
  have "0 \<le> sqrt (sum_list (map (\<lambda>x. x * x) a)) * sqrt (sum_list (map (\<lambda>x. x * x) b))"
    using sum_squares_nonneg [of a] sum_squares_nonneg [of b] by simp
  with assms have "sum_list (map (\<lambda>p. fst p * snd p) (zip a b))
      / (sqrt (sum_list (map (\<lambda>x. x * x) a)) * sqrt (sum_list (map (\<lambda>x. x * x) b))) \<le> 0"
    by (rule divide_nonpos_nonneg)
  then show ?thesis unfolding cosine_similarity_unfold [OF True] by simp
qed

lemma check_attack_signatures_nonpos:
  "\<forall>sg\<in>set sigs. sum_list (map (\<lambda>p. fst p * snd p) (zip v (sig_vector sg))) \<le> 0 \<Longrightarrow>
   check_attack_signatures sigs v = (0, no_reason)"
proof (induction sigs)
  case Nil
  show ?case by simp
next
  case (Cons sg rest)
  then have "cosine_similarity v (sig_vector sg) \<le> 0"
    by (intro cosine_similarity_nonpos) simp
  then have "\<not> cosine_similarity v (sig_vector sg) > similarity_threshold"
    unfolding similarity_threshold_def by simp
  with Cons show ?case by (simp add: Let_def)
qed


lemma weighted_sum_default:
  "weighted_sum FUSION_WEIGHTS
     [(''anomaly'', a), (''fdia'', f), (''physics'', p), (''behavior'', b), (''memory'', m)]
   = 0.15 * a + 0.35 * f + 0.25 * p + 0.10 * b + 0.15 * m"
  by (simp add: weighted_sum_def FUSION_WEIGHTS_def get_or_def)

lemma analyze_default_weights:
  assumes "preprocess now (preprocessor s) x = Inr r"
    and "fusion_weights s = FUSION_WEIGHTS"
    and "score (anomaly_analyze (fst r)
           (get_rolling_statistics (snd r) h_voltage rolling_window,
            get_rolling_statistics (snd r) h_frequency rolling_window,
            get_rolling_statistics (snd r) h_power_flow rolling_window)) = a"
    and "score (fst (fdia_analyze (fdia_history s) (fst r) (telemetry_history (snd r)))) = f"
    and "score (physics_analyze (fst r)) = p"
    and "score (fst (behavior_analyze (behavior s) (fst r))) = b"
    and "score (fst (memory_analyze (memory s) (fst r) (telemetry_history (snd r)))) = m"
  shows "out_model_outputs (fst (analyze None now s x)) =
           [(''anomaly'', a), (''fdia'', f), (''physics'', p), (''behavior'', b), (''memory'', m)]
         \<and> out_decision (fst (analyze None now s x)) =
             get_decision (max 0 (min 1 (0.15 * a + 0.35 * f + 0.25 * p + 0.10 * b + 0.15 * m)))
         \<and> out_final_risk (fst (analyze None now s x)) =
             py_round3 (max 0 (min 1 (0.15 * a + 0.35 * f + 0.25 * p + 0.10 * b + 0.15 * m)))"
proof -
  define mo where "mo = fst (execute_models (fst r) (s\<lparr>preprocessor := snd r\<rparr>))"
  have it: "items_of score mo =
      [(''anomaly'', a), (''fdia'', f), (''physics'', p), (''behavior'', b), (''memory'', m)]"
    unfolding mo_def using assms(3-7) by (simp add: execute_models_def items_of_def Let_def)
  have out: "fst (analyze None now s x) = prepare_output mo (fuse FUSION_WEIGHTS mo) (fst r) (analysis_count s)"
    unfolding mo_def using analyze_output [OF assms(1)] assms(2) by simp
  show ?thesis
    unfolding out
    by (simp add: prepare_output_def fuse_def Let_def it calculate_weighted_risk_def
        weighted_sum_default)
qed

lemma rolling_statistics_single:
  "telemetry_history pre = [e] \<Longrightarrow> get_rolling_statistics pre fld rolling_window = (0, 0)"
  by (simp add: get_rolling_statistics_def)

lemma rolling_statistics_pair:
  "telemetry_history pre = [e, e] \<Longrightarrow> get_rolling_statistics pre fld rolling_window = (fld e, 0)"
  by (simp add: get_rolling_statistics_def last_n_def rolling_window_def Let_def)

lemma anomaly_field_quiet:
  "snd st = 0 \<Longrightarrow> fst st = 0 \<or> fst st = v \<Longrightarrow> anomaly_field name v st = (False, 0, no_reason)"
  by (auto simp add: anomaly_field_def evaluate_anomaly_def compute_z_score_def
      compute_deviation_percentage_def z_score_threshold_def deviation_threshold_def)

lemma anomaly_analyze_quiet:
  assumes "snd sv = 0" and "fst sv = 0 \<or> fst sv = voltage d"
    and "snd sf = 0" and "fst sf = 0 \<or> fst sf = frequency d"
    and "snd sp = 0" and "fst sp = 0 \<or> fst sp = power_flow d"
  shows "score (anomaly_analyze d (sv, sf, sp)) = 0"
  using anomaly_field_quiet [OF assms(1,2)] anomaly_field_quiet [OF assms(3,4)]
    anomaly_field_quiet [OF assms(5,6)]
  by (simp add: anomaly_analyze_def Let_def)

lemma fdia_analyze_quiet:
  assumes "length th < 5" and "delta_voltage d = 0" and "delta_frequency d = 0"
    and "delta_power_flow d = 0"
  shows "score (fst (fdia_analyze h d th)) = 0"
  using assms
  by (simp add: fdia_analyze_def check_correlation_mismatch_def check_temporal_consistency_def
      significant_changes_def check_multi_signal_coordination_def fired_def Let_def)

lemma memory_analyze_signatures_only:
  assumes "length th < 10" and "length (telemetry_memory m) < 19"
  shows "score (fst (memory_analyze m d th)) =
     fst (check_attack_signatures (attack_signatures m)
            (create_feature_vector (voltage d) (frequency d) (power_flow d)))"
proof -
  have l: "length (update_memory (telemetry_memory m) d) < 20"
    using assms(2) by (simp add: update_memory_def append_bounded_def Let_def)
  have "0 \<le> fst (check_attack_signatures (attack_signatures m)
            (create_feature_vector (voltage d) (frequency d) (power_flow d)))"
    using check_attack_signatures_bounds by simp
  then show ?thesis
    using assms(1) l
    by (simp add: memory_analyze_def check_pattern_repetition_def check_baseline_deviation_def
        fired_def Let_def)
qed

section \<open>Scenario B: breaker OFF with power flowing, on a fresh pipeline\<close>

lemma preprocess_first_sample:
  assumes "last_telemetry pre = None" and "telemetry_history pre = []"
    and "b = ''ON'' \<or> b = ''OFF''"
  shows "\<exists>r. preprocess now pre (sample v f p b ts) = Inr r
           \<and> voltage (fst r) = v \<and> frequency (fst r) = f \<and> power_flow (fst r) = p
           \<and> breaker_status (fst r) = (if b = ''ON'' then ON else OFF)
           \<and> delta_voltage (fst r) = 0 \<and> delta_frequency (fst r) = 0
           \<and> delta_power_flow (fst r) = 0 \<and> delta_time (fst r) = 0
           \<and> breaker_changed (fst r) = None
           \<and> (\<exists>e. telemetry_history (snd r) = [e])"
  using assms
  by (auto simp add: preprocess_defs sample_def Let_def split_def)

lemma cosine_similarity_above:
  fixes a b :: "real list"
  defines "D \<equiv> sum_list (map (\<lambda>p. fst p * snd p) (zip a b))"
    and "A \<equiv> sum_list (map (\<lambda>x. x * x) a)"
    and "B \<equiv> sum_list (map (\<lambda>x. x * x) b)"
  assumes len: "length a = length b" and t: "0 \<le> t" and D: "0 < D"
    and A: "0 < A" and B: "0 < B" and lt: "t * t * (A * B) < D * D"
  shows "t < cosine_similarity a b"
proof -
  have sA: "0 < sqrt A" and sB: "0 < sqrt B" using A B by simp_all
  then have pos: "0 < sqrt A * sqrt B" by (rule mult_pos_pos)
  define S where "S = sqrt A * sqrt B"
  have "S\<^sup>2 = A * B"
    unfolding S_def using A B by (simp add: power_mult_distrib)
  then have SS: "S * S = A * B" by (simp add: power2_eq_square)
  have "(t * S)\<^sup>2 = t * t * (S * S)" by algebra
  with lt have "(t * S)\<^sup>2 < D * D" unfolding SS by simp
  then have sq: "(t * (sqrt A * sqrt B))\<^sup>2 < D\<^sup>2"
    unfolding S_def by (simp add: power2_eq_square)
  have "t * (sqrt A * sqrt B) < D"
    by (rule power2_less_imp_less [OF sq less_imp_le [OF D]])
  then have "t < D / (sqrt A * sqrt B)"
    using pos by (simp add: pos_less_divide_eq)
  moreover have "cosine_similarity a b = D / (sqrt A * sqrt B)"
    using sA sB unfolding cosine_similarity_unfold [OF len] D_def A_def B_def by simp
  ultimately show ?thesis by simp
qed

lemma scenario_similarity:
  "0.85 < cosine_similarity (create_feature_vector 1 50 50) [0.35, 1.05, 0.45]"
  by (rule cosine_similarity_above) (simp_all add: create_feature_vector_def)


lemma physics_violation_result:
  "out_model_outputs (fst (analyze None now new_pipeline (sample 1 50 50 ''OFF'' None))) =
     [(''anomaly'', 0), (''fdia'', 0), (''physics'', 1), (''behavior'', 0),
      (''memory'', cosine_similarity (create_feature_vector 1 50 50) [0.35, 1.05, 0.45])]
   \<and> out_decision (fst (analyze None now new_pipeline (sample 1 50 50 ''OFF'' None))) = WARNING
   \<and> 0.377 \<le> out_final_risk (fst (analyze None now new_pipeline (sample 1 50 50 ''OFF'' None)))
   \<and> out_final_risk (fst (analyze None now new_pipeline (sample 1 50 50 ''OFF'' None))) \<le> 0.4"
proof -
  let ?x = "sample 1 50 50 ''OFF'' None"
  let ?c = "cosine_similarity (create_feature_vector 1 50 50) [0.35, 1.05, 0.45]"
  have n1: "last_telemetry (preprocessor new_pipeline) = None"
    and n2: "telemetry_history (preprocessor new_pipeline) = []"
    by (simp_all add: new_pipeline_def)
  from preprocess_first_sample [OF n1 n2, of "''OFF''" now 1 50 50 None]
  obtain r e where p: "preprocess now (preprocessor new_pipeline) ?x = Inr r"
    and v: "voltage (fst r) = 1" and f: "frequency (fst r) = 50" and pw: "power_flow (fst r) = 50"
    and br: "breaker_status (fst r) = OFF"
    and dv: "delta_voltage (fst r) = 0" and df: "delta_frequency (fst r) = 0"
    and dp: "delta_power_flow (fst r) = 0" and dt: "delta_time (fst r) = 0"
    and bc: "breaker_changed (fst r) = None"
    and th: "telemetry_history (snd r) = [e]"
    by auto
  have w: "fusion_weights new_pipeline = FUSION_WEIGHTS"
    by (simp add: new_pipeline_def)
  have a: "score (anomaly_analyze (fst r)
           (get_rolling_statistics (snd r) h_voltage rolling_window,
            get_rolling_statistics (snd r) h_frequency rolling_window,
            get_rolling_statistics (snd r) h_power_flow rolling_window)) = 0"
    unfolding rolling_statistics_single [OF th]
    by (rule anomaly_analyze_quiet) simp_all
  have fd: "score (fst (fdia_analyze (fdia_history new_pipeline) (fst r)
                    (telemetry_history (snd r)))) = 0"
    by (rule fdia_analyze_quiet) (simp_all add: th dv df dp)
  have ph: "score (physics_analyze (fst r)) = 1"
    by (simp add: physics_analyze_def check_breaker_power_consistency_def
        check_voltage_bounds_def check_frequency_bounds_def check_power_voltage_causality_def
        check_physical_impossibilities_def fired_def Let_def v f pw br dv df dp dt
        breaker_off_power_tolerance_def voltage_min_def voltage_max_def frequency_min_def
        frequency_max_def)
  have bh: "score (fst (behavior_analyze (behavior new_pipeline) (fst r))) = 0"
    using behavior_score_no_flag [OF bc, of "behavior new_pipeline"]
    by (simp add: new_pipeline_def)
  have gt: "0.85 < ?c" by (rule scenario_similarity)
  have le: "?c \<le> 1" by (rule cosine_similarity_le_one)
  have "score (fst (memory_analyze (memory new_pipeline) (fst r) (telemetry_history (snd r)))) =
      fst (check_attack_signatures (attack_signatures (memory new_pipeline))
            (create_feature_vector (voltage (fst r)) (frequency (fst r)) (power_flow (fst r))))"
    by (rule memory_analyze_signatures_only) (simp_all add: th new_pipeline_def)
  also have "\<dots> = ?c"
    using gt
    by (simp add: v f pw new_pipeline_def initial_attack_signatures_def similarity_threshold_def
        Let_def)
  finally have mm: "score (fst (memory_analyze (memory new_pipeline) (fst r)
                      (telemetry_history (snd r)))) = ?c" .
  define risk where "risk = max 0 (min 1 (0.15 * 0 + 0.35 * 0 + 0.25 * 1 + 0.10 * 0 + 0.15 * ?c))"
  have rb: "377 / 1000 \<le> risk" "risk \<le> 400 / 1000"
    using gt le by (simp_all add: risk_def)
  have dec: "get_decision risk = WARNING"
    using rb by (simp add: get_decision_def safe_threshold_def warning_threshold_def)
  have "py_round3 (of_int 377 / 1000) \<le> py_round3 risk"
    "py_round3 risk \<le> py_round3 (of_int 400 / 1000)"
    using rb by (simp_all add: py_round3_mono)
  then have rr: "0.377 \<le> py_round3 risk" "py_round3 risk \<le> 0.4"
    unfolding py_round3_milli by simp_all
  from analyze_default_weights [OF p w a fd ph bh mm] dec rr show ?thesis
    unfolding risk_def by simp
qed

text \<open>
  Claim C3 at the failing input. On a freshly constructed pipeline, at any clock reading,
  one call with voltage 1.0, frequency 50.0, power_flow 50.0 and breaker_status OFF gives
  the physics model the score 1.0 (the breaker-OFF power-tolerance check fires), and the
  returned decision is WARNING, not CRITICAL: only the physics and the memory model
  score, and the weighted risk 0.25 + 0.15 * similarity lies between 0.377 and 0.4.
\<close>

theorem physics_violation_is_warning:
  "map_of (out_model_outputs (fst (analyze None now new_pipeline (sample 1 50 50 ''OFF'' None))))
     ''physics'' = Some 1
   \<and> out_decision (fst (analyze None now new_pipeline (sample 1 50 50 ''OFF'' None))) = WARNING
   \<and> out_decision (fst (analyze None now new_pipeline (sample 1 50 50 ''OFF'' None))) \<noteq> CRITICAL
   \<and> 0.377 \<le> out_final_risk (fst (analyze None now new_pipeline (sample 1 50 50 ''OFF'' None)))
   \<and> out_final_risk (fst (analyze None now new_pipeline (sample 1 50 50 ''OFF'' None))) \<le> 0.4"
  using physics_violation_result [of now] by simp

section \<open>Scores, rounding and the decision\<close>

lemma replay_threshold_result:
  "out_decision (fst (analyze None clock_noon
       (snd (analyze None clock_noon new_pipeline (sample 1.22619 50 (- 400) ''ON'' (stamp 10 2 1770199200))))
       (sample 1.22619 50 (- 400) ''ON'' (stamp 10 2 1770199200)))) = SAFE
   \<and> out_final_risk (fst (analyze None clock_noon
       (snd (analyze None clock_noon new_pipeline (sample 1.22619 50 (- 400) ''ON'' (stamp 10 2 1770199200))))
       (sample 1.22619 50 (- 400) ''ON'' (stamp 10 2 1770199200)))) = 0.30"
proof -
  let ?x = "sample 1.22619 50 (- 400) ''ON'' (stamp 10 2 1770199200)"
  let ?t = "Naive \<lparr>dt_hour = 10, dt_weekday = 2, dt_unix = 1770199200\<rparr>"
  let ?e = "\<lparr>h_voltage = 1.22619, h_frequency = 50, h_power_flow = - 400, h_timestamp = ?t\<rparr>"
  let ?tel = "\<lparr>voltage = 1.22619, frequency = 50, power_flow = - 400, breaker_status = ON,
               timestamp = ?t,
                 raw_breaker_changed = None \<rparr>"
  let ?s1 = "\<lparr>preprocessor = \<lparr>last_telemetry = Some ?tel, telemetry_history = [?e]\<rparr>,
         fdia_history = [(1.22619, 50, - 400)],
         behavior =
           \<lparr>command_history =
              [\<lparr>c_timestamp = 1770199200, c_hour = 10, c_breaker_status = ON,
                  c_breaker_changed = False\<rparr>],
              timestamp_history = [1770199200], switch_count = 0, switch_timestamps = []\<rparr>,
         memory =
           \<lparr>telemetry_memory = [(1.22619, 50, - 400)],
              attack_signatures = initial_attack_signatures\<rparr>,
         fusion_weights = FUSION_WEIGHTS, analysis_count = 1\<rparr>"
  let ?d = "\<lparr>voltage = 1.22619, frequency = 50, power_flow = - 400, breaker_status = ON,
       timestamp = ?t, raw_breaker_changed = None, voltage_norm = 1, frequency_norm = 1 / 2, power_flow_norm = 0,
       hour = 10, day_of_week = 2, is_weekend = False, is_night = False,
       timestamp_unix = 1770199200, delta_voltage = 0, delta_frequency = 0, delta_power_flow = 0,
       delta_time = 0, breaker_changed = Some False\<rparr>"
  let ?pre2 = "\<lparr>last_telemetry = Some ?tel, telemetry_history = [?e, ?e]\<rparr>"
  have s1: "snd (analyze None clock_noon new_pipeline ?x) = ?s1"
    by (simp add: analyze_state_case preprocess_defs scenario_defs Let_def model_state_defs)
  have p: "preprocess clock_noon (preprocessor ?s1) ?x = Inr (?d, ?pre2)"
    by (simp add: preprocess_defs scenario_defs Let_def)
  have w: "fusion_weights ?s1 = FUSION_WEIGHTS" by simp
  have th: "telemetry_history (snd (?d, ?pre2)) = [?e, ?e]" by simp
  have a: "score (anomaly_analyze (fst (?d, ?pre2))
           (get_rolling_statistics (snd (?d, ?pre2)) h_voltage rolling_window,
            get_rolling_statistics (snd (?d, ?pre2)) h_frequency rolling_window,
            get_rolling_statistics (snd (?d, ?pre2)) h_power_flow rolling_window)) = 0"
    unfolding rolling_statistics_pair [OF th]
    by (rule anomaly_analyze_quiet) simp_all
  have fd: "score (fst (fdia_analyze (fdia_history ?s1) (fst (?d, ?pre2))
                    (telemetry_history (snd (?d, ?pre2))))) = 0"
    by (rule fdia_analyze_quiet) simp_all
  have ph: "score (physics_analyze (fst (?d, ?pre2))) = 0.839"
    by (simp add: physics_analyze_def check_breaker_power_consistency_def
        check_voltage_bounds_def check_frequency_bounds_def check_power_voltage_causality_def
        check_physical_impossibilities_def fired_def Let_def
        breaker_off_power_tolerance_def voltage_min_def voltage_max_def frequency_min_def
        frequency_max_def)
  have bh: "score (fst (behavior_analyze (behavior ?s1) (fst (?d, ?pre2)))) = 0.9"
    by (simp add: behavior_analyze_def check_replay_attack_def check_off_hours_operation_def
        check_excessive_switching_def recent_switches_def check_rapid_commands_def
        get_breaker_changed_def fired_def max_switches_per_hour_def replay_time_tolerance_def
        Let_def split_def)
  have "score (fst (memory_analyze (memory ?s1) (fst (?d, ?pre2))
                      (telemetry_history (snd (?d, ?pre2))))) =
      fst (check_attack_signatures (attack_signatures (memory ?s1))
            (create_feature_vector (voltage (fst (?d, ?pre2))) (frequency (fst (?d, ?pre2)))
               (power_flow (fst (?d, ?pre2)))))"
    by (rule memory_analyze_signatures_only) simp_all
  also have "\<dots> = 0"
    using check_attack_signatures_nonpos
      [of initial_attack_signatures "create_feature_vector 1.22619 50 (- 400)"]
    by (simp add: initial_attack_signatures_def create_feature_vector_def)
  finally have mm: "score (fst (memory_analyze (memory ?s1) (fst (?d, ?pre2))
                      (telemetry_history (snd (?d, ?pre2))))) = 0" .
  have dec: "get_decision (max 0 (min 1 (0.15 * 0 + 0.35 * 0 + 0.25 * 0.839 + 0.10 * 0.9 + 0.15 * 0)))
        = SAFE"
    by (simp add: get_decision_def safe_threshold_def)
  have rnd: "py_round3 (max 0 (min 1 (0.15 * 0 + 0.35 * 0 + 0.25 * 0.839 + 0.10 * 0.9 + 0.15 * 0)))
        = 0.30"
    by (simp add: py_round3_def py_round_def Let_def)
  from analyze_default_weights [OF p w a fd ph bh mm] dec rnd
  show ?thesis unfolding s1 by simp
qed


lemma mixed_offset_result:
  "validate_input
     (sample 1 50 100 ''ON'' (Some (Aware \<lparr>dt_hour = 12, dt_weekday = 0, dt_unix = 1770034600\<rparr>)))
     = Inr \<lparr> rf_voltage = Some (Num 1), rf_frequency = Some (Num 50),
             rf_power_flow = Some (Num 100), rf_breaker_status = Some (Str ''ON''),
             rf_timestamp = Some (Aware \<lparr>dt_hour = 12, dt_weekday = 0, dt_unix = 1770034600\<rparr>),
                rf_breaker_changed = None \<rparr>
   \<and> out_decision (fst (analyze None clock_later
         (snd (analyze None clock_noon new_pipeline (sample 1 50 100 ''ON'' None)))
         (sample 1 50 100 ''ON''
            (Some (Aware \<lparr>dt_hour = 12, dt_weekday = 0, dt_unix = 1770034600\<rparr>))))) = ERROR
   \<and> out_final_risk (fst (analyze None clock_later
         (snd (analyze None clock_noon new_pipeline (sample 1 50 100 ''ON'' None)))
         (sample 1 50 100 ''ON''
            (Some (Aware \<lparr>dt_hour = 12, dt_weekday = 0, dt_unix = 1770034600\<rparr>))))) = 0"
proof -
  let ?x2 = "sample 1 50 100 ''ON''
            (Some (Aware \<lparr>dt_hour = 12, dt_weekday = 0, dt_unix = 1770034600\<rparr>))"
  let ?s1 = "snd (analyze None clock_noon new_pipeline (sample 1 50 100 ''ON'' None))"
  have l: "last_telemetry (preprocessor ?s1) =
      Some \<lparr>voltage = 1, frequency = 50, power_flow = 100, breaker_status = ON,
             timestamp = Naive clock_noon,
                 raw_breaker_changed = None \<rparr>"
    by (simp add: analyze_state_case preprocess_defs sample_def new_pipeline_def Let_def)
  have "\<exists>m. preprocess clock_later (preprocessor ?s1) ?x2 = Inl (TypeError m)"
    using l by (simp add: preprocess_defs sample_def Let_def)
  then obtain m where "preprocess clock_later (preprocessor ?s1) ?x2 = Inl (TypeError m)" ..
  then have "fst (analyze None clock_later ?s1 ?x2) = handle_error (TypeError m) ?x2"
    by (simp add: analyze_def)
  then show ?thesis
    by (simp add: handle_error_def validate_input_def sample_def present_not_def
        is_numeric_def is_on_off_def)
qed

text \<open>
  A call that passes preprocessing and raises nothing. The bound 1 on the memory score is
  left out: it rests on the cosine similarity being at most 1, which holds over the
  reals and not for the float quotient the code returns unclamped.
\<close>

lemma analyze_success_bounds:
  assumes "preprocess now (preprocessor s) x = Inr r"
  shows "(\<forall>m\<in>{mo_anomaly (fst (execute_models (fst r) (s\<lparr>preprocessor := snd r\<rparr>))),
              mo_fdia (fst (execute_models (fst r) (s\<lparr>preprocessor := snd r\<rparr>))),
              mo_physics (fst (execute_models (fst r) (s\<lparr>preprocessor := snd r\<rparr>))),
              mo_behavior (fst (execute_models (fst r) (s\<lparr>preprocessor := snd r\<rparr>)))}.
            0 \<le> score m \<and> score m \<le> 1 \<and> 0 \<le> confidence m \<and> confidence m \<le> 1)
     \<and> 0 \<le> score (mo_memory (fst (execute_models (fst r) (s\<lparr>preprocessor := snd r\<rparr>))))
     \<and> 0 \<le> confidence (mo_memory (fst (execute_models (fst r) (s\<lparr>preprocessor := snd r\<rparr>))))
     \<and> confidence (mo_memory (fst (execute_models (fst r) (s\<lparr>preprocessor := snd r\<rparr>)))) \<le> 1
     \<and> out_model_outputs (fst (analyze None now s x)) =
           items_of score (fst (execute_models (fst r) (s\<lparr>preprocessor := snd r\<rparr>)))
     \<and> (\<forall>item\<in>set (out_model_outputs (fst (analyze None now s x))).
           0 \<le> snd item \<and> (fst item \<noteq> ''memory'' \<longrightarrow> snd item \<le> 1))
     \<and> 0 \<le> out_final_risk (fst (analyze None now s x)) \<and> out_final_risk (fst (analyze None now s x)) \<le> 1
     \<and> 0 \<le> out_confidence (fst (analyze None now s x)) \<and> out_confidence (fst (analyze None now s x)) \<le> 1
     \<and> out_final_risk (fst (analyze None now s x)) =
           py_round3 (calculate_weighted_risk (fusion_weights s)
             (items_of score (fst (execute_models (fst r) (s\<lparr>preprocessor := snd r\<rparr>)))))
     \<and> out_decision (fst (analyze None now s x)) =
           (if calculate_weighted_risk (fusion_weights s)
                 (items_of score (fst (execute_models (fst r) (s\<lparr>preprocessor := snd r\<rparr>)))) < 0.30
            then SAFE
            else if calculate_weighted_risk (fusion_weights s)
                 (items_of score (fst (execute_models (fst r) (s\<lparr>preprocessor := snd r\<rparr>)))) < 0.60
            then WARNING else CRITICAL)
     \<and> (out_final_risk (fst (analyze None now s x)) < 0.30
          \<longrightarrow> out_decision (fst (analyze None now s x)) = SAFE)
     \<and> (0.30 < out_final_risk (fst (analyze None now s x)) \<and> out_final_risk (fst (analyze None now s x)) < 0.60
          \<longrightarrow> out_decision (fst (analyze None now s x)) = WARNING)
     \<and> (0.60 < out_final_risk (fst (analyze None now s x))
          \<longrightarrow> out_decision (fst (analyze None now s x)) = CRITICAL)
     \<and> (out_decision (fst (analyze None now s x)) = SAFE
          \<longrightarrow> out_final_risk (fst (analyze None now s x)) \<le> 0.30)
     \<and> (out_decision (fst (analyze None now s x)) = WARNING
          \<longrightarrow> 0.30 \<le> out_final_risk (fst (analyze None now s x))
              \<and> out_final_risk (fst (analyze None now s x)) \<le> 0.60)
     \<and> (out_decision (fst (analyze None now s x)) = CRITICAL
          \<longrightarrow> 0.60 \<le> out_final_risk (fst (analyze None now s x)))"
proof -
  define mo where "mo = fst (execute_models (fst r) (s\<lparr>preprocessor := snd r\<rparr>))"
  define risk where "risk = calculate_weighted_risk (fusion_weights s) (items_of score mo)"
  define conf where "conf = calculate_weighted_confidence (fusion_weights s) (items_of confidence mo)"
  define out where "out = fst (analyze None now s x)"
  have out: "out = prepare_output mo (fuse (fusion_weights s) mo) (fst r) (analysis_count s)"
    unfolding out_def mo_def by (rule analyze_output [OF assms])
  have b: "\<forall>m\<in>{mo_anomaly mo, mo_fdia mo, mo_physics mo, mo_behavior mo, mo_memory mo}.
            0 \<le> score m \<and> score m \<le> 1 \<and> 0 \<le> confidence m \<and> confidence m \<le> 1"
    unfolding mo_def by (rule execute_models_bounds)
  from b have b4: "\<forall>m\<in>{mo_anomaly mo, mo_fdia mo, mo_physics mo, mo_behavior mo}.
            0 \<le> score m \<and> score m \<le> 1 \<and> 0 \<le> confidence m \<and> confidence m \<le> 1"
    by simp
  from b have bm: "0 \<le> score (mo_memory mo)" "0 \<le> confidence (mo_memory mo)"
    "confidence (mo_memory mo) \<le> 1"
    by simp_all
  have o1: "out_model_outputs out = items_of score mo"
    unfolding out by (simp add: prepare_output_def)
  have o2: "\<forall>item\<in>set (out_model_outputs out).
              0 \<le> snd item \<and> (fst item \<noteq> ''memory'' \<longrightarrow> snd item \<le> 1)"
    unfolding o1 using b by (simp add: items_of_def)
  have r01: "0 \<le> risk \<and> risk \<le> 1"
    unfolding risk_def calculate_weighted_risk_def by simp
  have c01: "0 \<le> conf \<and> conf \<le> 1"
    unfolding conf_def calculate_weighted_confidence_def by simp
  have o3: "out_final_risk out = py_round3 risk"
    unfolding out risk_def by (simp add: prepare_output_def fuse_def Let_def)
  have o4: "out_confidence out = py_round3 conf"
    unfolding out conf_def by (simp add: prepare_output_def fuse_def Let_def)
  have o5: "out_decision out = get_decision risk"
    unfolding out risk_def by (simp add: prepare_output_def fuse_def Let_def)
  have o6: "get_decision risk = (if risk < 0.30 then SAFE else if risk < 0.60 then WARNING else CRITICAL)"
    by (simp add: get_decision_def safe_threshold_def warning_threshold_def)
  have fr: "0 \<le> out_final_risk out \<and> out_final_risk out \<le> 1"
    unfolding o3 using r01 py_round3_bounds by blast
  have fc: "0 \<le> out_confidence out \<and> out_confidence out \<le> 1"
    unfolding o4 using c01 py_round3_bounds by blast
  have rd: "(out_final_risk out < 0.30 \<longrightarrow> out_decision out = SAFE)
     \<and> (0.30 < out_final_risk out \<and> out_final_risk out < 0.60 \<longrightarrow> out_decision out = WARNING)
     \<and> (0.60 < out_final_risk out \<longrightarrow> out_decision out = CRITICAL)
     \<and> (out_decision out = SAFE \<longrightarrow> out_final_risk out \<le> 0.30)
     \<and> (out_decision out = WARNING \<longrightarrow> 0.30 \<le> out_final_risk out \<and> out_final_risk out \<le> 0.60)
     \<and> (out_decision out = CRITICAL \<longrightarrow> 0.60 \<le> out_final_risk out)"
    unfolding o3 o5 by (rule get_decision_round)
  have o7: "out_decision out = (if risk < 0.30 then SAFE else if risk < 0.60 then WARNING else CRITICAL)"
    unfolding o5 by (rule o6)
  from b4 bm o1 o2 fr fc o3 o7 rd show ?thesis
    unfolding mo_def risk_def out_def by blast
qed

text \<open>
  Claim C1, as the code has it. Whenever the returned decision is not ERROR, the call
  passed preprocessing and raised no exception, the scores of the anomaly, FDIA, physics
  and behavior models and the five model confidences lie in [0,1], the memory score is
  not negative, and the returned final risk and the returned confidence lie in [0,1].
  The decision is taken on the weighted risk before rounding: SAFE below 0.30, WARNING
  from 0.30 and below 0.60, CRITICAL from 0.60. The returned final risk is that risk
  rounded to three decimals, so a returned final risk below 0.30 means SAFE, one strictly
  between 0.30 and 0.60 means WARNING, one above 0.60 means CRITICAL, and the decision
  never decreases when the returned final risk increases; at exactly 0.30 (or 0.60) the
  decision may still be the lower one.
\<close>

theorem analyze_scores_and_decision:
  assumes "out_decision (fst (analyze raised now s x)) \<noteq> ERROR"
  shows "\<exists>r. preprocess now (preprocessor s) x = Inr r \<and> raised = None
     \<and> (\<forall>m\<in>{mo_anomaly (fst (execute_models (fst r) (s\<lparr>preprocessor := snd r\<rparr>))),
              mo_fdia (fst (execute_models (fst r) (s\<lparr>preprocessor := snd r\<rparr>))),
              mo_physics (fst (execute_models (fst r) (s\<lparr>preprocessor := snd r\<rparr>))),
              mo_behavior (fst (execute_models (fst r) (s\<lparr>preprocessor := snd r\<rparr>)))}.
            0 \<le> score m \<and> score m \<le> 1 \<and> 0 \<le> confidence m \<and> confidence m \<le> 1)
     \<and> 0 \<le> score (mo_memory (fst (execute_models (fst r) (s\<lparr>preprocessor := snd r\<rparr>))))
     \<and> 0 \<le> confidence (mo_memory (fst (execute_models (fst r) (s\<lparr>preprocessor := snd r\<rparr>))))
     \<and> confidence (mo_memory (fst (execute_models (fst r) (s\<lparr>preprocessor := snd r\<rparr>)))) \<le> 1
     \<and> out_model_outputs (fst (analyze raised now s x)) =
           items_of score (fst (execute_models (fst r) (s\<lparr>preprocessor := snd r\<rparr>)))
     \<and> (\<forall>item\<in>set (out_model_outputs (fst (analyze raised now s x))).
           0 \<le> snd item \<and> (fst item \<noteq> ''memory'' \<longrightarrow> snd item \<le> 1))
     \<and> 0 \<le> out_final_risk (fst (analyze raised now s x)) \<and> out_final_risk (fst (analyze raised now s x)) \<le> 1
     \<and> 0 \<le> out_confidence (fst (analyze raised now s x)) \<and> out_confidence (fst (analyze raised now s x)) \<le> 1
     \<and> out_final_risk (fst (analyze raised now s x)) =
           py_round3 (calculate_weighted_risk (fusion_weights s)
             (items_of score (fst (execute_models (fst r) (s\<lparr>preprocessor := snd r\<rparr>)))))
     \<and> out_decision (fst (analyze raised now s x)) =
           (if calculate_weighted_risk (fusion_weights s)
                 (items_of score (fst (execute_models (fst r) (s\<lparr>preprocessor := snd r\<rparr>)))) < 0.30
            then SAFE
            else if calculate_weighted_risk (fusion_weights s)
                 (items_of score (fst (execute_models (fst r) (s\<lparr>preprocessor := snd r\<rparr>)))) < 0.60
            then WARNING else CRITICAL)
     \<and> (out_final_risk (fst (analyze raised now s x)) < 0.30
          \<longrightarrow> out_decision (fst (analyze raised now s x)) = SAFE)
     \<and> (0.30 < out_final_risk (fst (analyze raised now s x)) \<and> out_final_risk (fst (analyze raised now s x)) < 0.60
          \<longrightarrow> out_decision (fst (analyze raised now s x)) = WARNING)
     \<and> (0.60 < out_final_risk (fst (analyze raised now s x))
          \<longrightarrow> out_decision (fst (analyze raised now s x)) = CRITICAL)
     \<and> (out_decision (fst (analyze raised now s x)) = SAFE
          \<longrightarrow> out_final_risk (fst (analyze raised now s x)) \<le> 0.30)
     \<and> (out_decision (fst (analyze raised now s x)) = WARNING
          \<longrightarrow> 0.30 \<le> out_final_risk (fst (analyze raised now s x))
              \<and> out_final_risk (fst (analyze raised now s x)) \<le> 0.60)
     \<and> (out_decision (fst (analyze raised now s x)) = CRITICAL
          \<longrightarrow> 0.60 \<le> out_final_risk (fst (analyze raised now s x)))"
proof -
  from assms obtain r where p: "preprocess now (preprocessor s) x = Inr r"
    and n: "raised = None"
    unfolding analyze_not_error by blast
  show ?thesis
    unfolding n by (rule exI [of _ r], rule conjI [OF p conjI [OF refl analyze_success_bounds [OF p]]])
qed

theorem analyze_scores_and_decision_witness:
  "out_decision (fst (analyze None clock_noon new_pipeline
              (sample 1 50 100 ''ON'' (stamp 10 2 1770199200)))) \<noteq> ERROR
   \<and> 0 \<le> out_final_risk (fst (analyze None clock_noon new_pipeline
              (sample 1 50 100 ''ON'' (stamp 10 2 1770199200))))
   \<and> out_final_risk (fst (analyze None clock_noon new_pipeline
              (sample 1 50 100 ''ON'' (stamp 10 2 1770199200)))) \<le> 1
   \<and> 0 \<le> out_confidence (fst (analyze None clock_noon new_pipeline
              (sample 1 50 100 ''ON'' (stamp 10 2 1770199200))))
   \<and> out_confidence (fst (analyze None clock_noon new_pipeline
              (sample 1 50 100 ''ON'' (stamp 10 2 1770199200)))) \<le> 1"
proof -
  have "preprocess clock_noon (preprocessor new_pipeline)
             (sample 1 50 100 ''ON'' (stamp 10 2 1770199200))
     = Inr (projr (preprocess clock_noon (preprocessor new_pipeline)
              (sample 1 50 100 ''ON'' (stamp 10 2 1770199200))))"
    by (simp add: preprocess_defs scenario_defs Let_def)
  then have h: "out_decision (fst (analyze None clock_noon new_pipeline
              (sample 1 50 100 ''ON'' (stamp 10 2 1770199200)))) \<noteq> ERROR"
    unfolding analyze_not_error by blast
  from analyze_scores_and_decision [OF h] h show ?thesis by blast
qed

text \<open>
  Claim C1 as stated fails twice. A sample sent a second time with the same timestamp
  (voltage 1.22619, power flow -400, breaker ON) has the weighted risk 0.29975: the
  decision is SAFE and the returned final risk is 0.30. And a sample accepted by
  validation whose timestamp carries an offset, sent after a sample stamped by the
  clock, gets the ERROR record with final risk 0, as does every accepted sample on which
  the call raises.
\<close>

theorem decision_not_a_function_of_returned_risk:
  "out_decision (fst (analyze None clock_noon
       (snd (analyze None clock_noon new_pipeline (sample 1.22619 50 (- 400) ''ON'' (stamp 10 2 1770199200))))
       (sample 1.22619 50 (- 400) ''ON'' (stamp 10 2 1770199200)))) = SAFE
   \<and> out_final_risk (fst (analyze None clock_noon
       (snd (analyze None clock_noon new_pipeline (sample 1.22619 50 (- 400) ''ON'' (stamp 10 2 1770199200))))
       (sample 1.22619 50 (- 400) ''ON'' (stamp 10 2 1770199200)))) = 0.30
   \<and> out_decision (fst (analyze None clock_later
         (snd (analyze None clock_noon new_pipeline (sample 1 50 100 ''ON'' None)))
         (sample 1 50 100 ''ON''
            (Some (Aware \<lparr>dt_hour = 12, dt_weekday = 0, dt_unix = 1770034600\<rparr>))))) = ERROR
   \<and> out_final_risk (fst (analyze None clock_later
         (snd (analyze None clock_noon new_pipeline (sample 1 50 100 ''ON'' None)))
         (sample 1 50 100 ''ON''
            (Some (Aware \<lparr>dt_hour = 12, dt_weekday = 0, dt_unix = 1770034600\<rparr>))))) = 0"
  using replay_threshold_result mixed_offset_result by simp

end
